theory Spec2Isabelle
  imports Main "HOL-Library.Word" "HOL-Library.Sublist"
begin

section \<open>Python values the scripts work with\<close>

text \<open>
  The exceptions the four source files can raise by their own statements: a failed
  \<^verbatim>\<open>assert\<close>, a dictionary lookup of a missing key, subscripting an empty list or
  \<^verbatim>\<open>None\<close>, and the shape and size errors of \<^verbatim>\<open>torch.nn.Linear\<close>.
\<close>

datatype py_error = AssertionError | KeyError | IndexError | TypeError | RuntimeError

subsection \<open>pathlib paths (POSIX flavour)\<close>

text \<open>
  \<^verbatim>\<open>pathlib.Path\<close> as the scripts use it: a path is its root (\<^verbatim>\<open>''\<close>, \<^verbatim>\<open>'/'\<close> or
  \<^verbatim>\<open>'//'\<close>) and its components. Parsing drops empty and \<^verbatim>\<open>'.'\<close> components and keeps
  \<^verbatim>\<open>'..'\<close>; exactly two leading slashes are kept as the root \<^verbatim>\<open>'//'\<close>, any other
  number is the root \<^verbatim>\<open>'/'\<close>.
\<close>

record ppath =
  p_root :: string
  p_parts :: "string list"

text \<open>\<^verbatim>\<open>str.split(sep)\<close> for a one-character separator.\<close>

fun split_sep :: "char \<Rightarrow> string \<Rightarrow> string list" where
  "split_sep c [] = [[]]"
| "split_sep c (x # xs) =
     (if x = c then [] # split_sep c xs
      else (case split_sep c xs of
              [] \<Rightarrow> [[x]]
            | h # t \<Rightarrow> (x # h) # t))"

definition is_component :: "string \<Rightarrow> bool" where
  "is_component x = (x \<noteq> [] \<and> x \<noteq> ''.'')"

text \<open>\<^verbatim>\<open>Path(s)\<close>.\<close>

definition Path :: "string \<Rightarrow> ppath" where
  "Path s =
     (let stripped = dropWhile (\<lambda>c. c = CHR ''/'') s;
          n = length s - length stripped;
          rt = (if n = 0 then [] else if n = 2 then ''//'' else ''/'')
      in \<lparr>p_root = rt, p_parts = filter is_component (split_sep CHR ''/'' stripped)\<rparr>)"

text \<open>
  \<^verbatim>\<open>p / s\<close>: a rooted right operand replaces the left one, a relative one is
  appended to it.
\<close>

definition joinpath :: "ppath \<Rightarrow> string \<Rightarrow> ppath" where
  "joinpath p s =
     (let q = Path s
      in if p_root q \<noteq> [] then q else p\<lparr>p_parts := p_parts p @ p_parts q\<rparr>)"

text \<open>\<^verbatim>\<open>p.name\<close>: the last component, \<^verbatim>\<open>''\<close> when there is none.\<close>

definition path_name :: "ppath \<Rightarrow> string" where
  "path_name p = (if p_parts p = [] then [] else last (p_parts p))"

text \<open>\<^verbatim>\<open>s.rfind(c)\<close>: the index of the last \<open>c\<close>, \<open>-1\<close> when there is none.\<close>

definition rfind :: "char \<Rightarrow> string \<Rightarrow> int" where
  "rfind c s =
     (case dropWhile (\<lambda>x. x \<noteq> c) (rev s) of
        [] \<Rightarrow> - 1
      | _ # front \<Rightarrow> int (length front))"

text \<open>
  \<^verbatim>\<open>p.stem\<close>: the name without its last suffix; a name whose only dot is its first or
  its last character has no suffix.
\<close>

definition path_stem :: "ppath \<Rightarrow> string" where
  "path_stem p =
     (let name = path_name p; i = rfind CHR ''.'' name
      in if 0 < i \<and> i < int (length name) - 1 then take (nat i) name else name)"

subsection \<open>The file system as the output-path check sees it\<close>

datatype fs_node = Absent | RegularFile | Directory "string list"

text \<open>
  Line 30 of the raw script and line 40 of the labeled one:
  \<^verbatim>\<open>(not p.exists()) or (p.exists() and p.is_dir() and not any(p.iterdir()))\<close>.
\<close>

fun output_path_free :: "fs_node \<Rightarrow> bool" where
  "output_path_free Absent = True"
| "output_path_free RegularFile = False"
| "output_path_free (Directory entries) = (entries = [])"

subsection \<open>Effects and failure\<close>

text \<open>
  What a script does to the world, in order. A run is the list of effects performed
  together with either the exception that ended it or its result.
\<close>

datatype event =
    LoadDataset ppath
  | ReadCsv ppath
  | RemoveTimestamps
  | LoadTokenizer string
  | LoadModelConfig string
  | LoadEncoder string
  | SetEval
  | EncodeBatch "string list"
  | MapEncode int
  | Mkdir ppath
  | WriteFile ppath
  | SaveToDisk ppath
  | SetEnviron string string
  | LoadFromDisk ppath
  | Train "string option"
  | SaveModel
  | SaveEncoder string ppath

type_synonym 'a run = "event list \<times> (py_error + 'a)"

definition ret :: "'a \<Rightarrow> 'a run" where
  "ret x = ([], Inr x)"

definition raise :: "py_error \<Rightarrow> 'a run" where
  "raise e = ([], Inl e)"

definition emit :: "event \<Rightarrow> unit run" where
  "emit ev = ([ev], Inr ())"

definition andthen :: "'a run \<Rightarrow> ('a \<Rightarrow> 'b run) \<Rightarrow> 'b run" where
  "andthen m f =
     (case m of
        (t, Inl e) \<Rightarrow> (t, Inl e)
      | (t, Inr x) \<Rightarrow> (case f x of (t', r) \<Rightarrow> (t @ t', r)))"

text \<open>
  \<^verbatim>\<open>assert cond\<close>, for an interpreter run without \<^verbatim>\<open>-O\<close> (which would drop
  every assertion).
\<close>

definition py_assert :: "bool \<Rightarrow> unit run" where
  "py_assert b = (if b then ret () else raise AssertionError)"

text \<open>Python dictionaries: built from key/value pairs, a later pair replacing an earlier one
  with the same key; \<^verbatim>\<open>d[k]\<close> raises \<^verbatim>\<open>KeyError\<close> on a missing key.\<close>

definition dict_of :: "('k \<times> 'v) list \<Rightarrow> ('k \<rightharpoonup> 'v)" where
  "dict_of items = fold (\<lambda>(k, v) m. m(k \<mapsto> v)) items Map.empty"

definition getitem :: "('k \<rightharpoonup> 'v) \<Rightarrow> 'k \<Rightarrow> 'v run" where
  "getitem d k = (case d k of None \<Rightarrow> raise KeyError | Some v \<Rightarrow> ret v)"

text \<open>\<^verbatim>\<open>xs[0]\<close> on a value that is a list or \<^verbatim>\<open>None\<close>.\<close>

fun subscript0 :: "'a list option \<Rightarrow> 'a run" where
  "subscript0 None = raise TypeError"
| "subscript0 (Some []) = raise IndexError"
| "subscript0 (Some (x # _)) = ret x"

section \<open>The embedding scripts\<close>

subsection \<open>Command-line configuration\<close>

text \<open>
  The \<^verbatim>\<open>argparse\<close> namespaces of the two embedding scripts. The options both scripts
  declare are the common part; an option with default \<^verbatim>\<open>None\<close> is an \<open>option\<close>.
\<close>

record embed_config =
  model_path :: "string option"
  base_model_name :: string
  dataset_output_name :: "string option"
  output_parent_folder :: "string option"
  input_dataset_log_file :: "string option"

record raw_config = embed_config +
  batch_size :: int
  remove_hdfs1_timestamp :: bool
  threads :: int

record labeled_config = embed_config +
  input_dataset_labels_csv :: "string option"

subsection \<open>embed\_dataset\_using\_pretrained\_model.py\<close>

text \<open>
  Lines 23 to 29 of \<^verbatim>\<open>embed_dataset\<close>: the three assertions on the configuration, then
  the dataset path and the output path.
\<close>

definition raw_paths :: "raw_config \<Rightarrow> (string \<times> ppath \<times> ppath) run" where
  "raw_paths config =
     (case model_path config of
        None \<Rightarrow> raise AssertionError
      | Some mp \<Rightarrow>
     (case input_dataset_log_file config of
        None \<Rightarrow> raise AssertionError
      | Some log_file \<Rightarrow>
     (case output_parent_folder config of
        None \<Rightarrow> raise AssertionError
      | Some parent \<Rightarrow>
          (let dataset_path = Path log_file;
               dataset_name =
                 (case dataset_output_name config of
                    None \<Rightarrow> path_stem dataset_path @ ''/embedding_from_'' @ path_stem (Path mp)
                  | Some name \<Rightarrow> name);
               output_path = joinpath (Path parent) dataset_name
           in ret (mp, dataset_path, output_path)))))"


subsection \<open>embed\_labeled\_dataset\_for\_anomaly\_detection.py\<close>

text \<open>A row of the labels CSV: the cells of its \<^verbatim>\<open>BlockId\<close> and \<^verbatim>\<open>Label\<close> columns.\<close>

record label_row =
  BlockId :: string
  Label :: string

text \<open>
  What the labeled script reads from outside itself. \<^verbatim>\<open>load_hdfs1_log_file_grouped\<close>
  (module \<^verbatim>\<open>dataset_utils\<close>) returns a dictionary from block identifier to the block's
  lines, given here by its items in order; \<^verbatim>\<open>KNOWN_ENCODER_CLASSES\<close> is a dictionary
  from encoder type to encoder class, again by its items, and \<open>class_name\<close> is a class's
  \<^verbatim>\<open>__name__\<close>. A tokenizer maps a batch of lines to the encoder's input, an encoder
  loaded from a model path maps that input to the embedding array of the batch.
\<close>

record ('c, 'tok, 'emb) labeled_world =
  fs :: "ppath \<Rightarrow> fs_node"
  load_hdfs1_log_file_grouped :: "ppath \<Rightarrow> (string \<times> string list) list"
  read_csv :: "ppath \<Rightarrow> label_row list"
  tokenizer_from_pretrained :: "string \<Rightarrow> string list \<Rightarrow> 'tok"
  KNOWN_ENCODER_CLASSES :: "(string \<times> 'c) list"
  class_name :: "'c \<Rightarrow> string"
  config_architectures :: "string \<Rightarrow> string list option"
  encoder_from_pretrained :: "'c \<Rightarrow> string \<Rightarrow> 'tok \<Rightarrow> 'emb"

record 'emb labeled_output =
  X_pickle :: "'emb list"
  y_npy :: "8 word list"

text \<open>\<^verbatim>\<open>encode_batch\<close>, lines 20 to 27: one call of the encoder on the tokenized batch.\<close>

definition encode_batch :: "string list \<Rightarrow> (string list \<Rightarrow> 'tok) \<Rightarrow> ('tok \<Rightarrow> 'emb) \<Rightarrow> 'emb run" where
  "encode_batch batch tokenizer encoder =
     andthen (emit (EncodeBatch batch)) (\<lambda>_. ret (encoder (tokenizer batch)))"

text \<open>Lines 36 to 39, after the four assertions of lines 31 to 34.\<close>

definition labeled_paths :: "labeled_config \<Rightarrow> (string \<times> ppath \<times> ppath \<times> ppath) run" where
  "labeled_paths config =
     (case model_path config of
        None \<Rightarrow> raise AssertionError
      | Some mp \<Rightarrow>
     (case input_dataset_log_file config of
        None \<Rightarrow> raise AssertionError
      | Some log_file \<Rightarrow>
     (case input_dataset_labels_csv config of
        None \<Rightarrow> raise AssertionError
      | Some labels_csv \<Rightarrow>
     (case output_parent_folder config of
        None \<Rightarrow> raise AssertionError
      | Some parent \<Rightarrow>
          (let dataset_path = Path log_file;
               label_path = Path labels_csv;
               dataset_name =
                 (case dataset_output_name config of
                    None \<Rightarrow>
                      path_stem dataset_path @ ''/labeled_embedding_from_'' @ path_stem (Path mp)
                  | Some name \<Rightarrow> name);
               output_path = joinpath (Path parent) dataset_name
           in ret (mp, dataset_path, label_path, output_path))))))"

text \<open>Lines 56 to 58: the encoder class named by the saved model configuration.\<close>

definition select_encoder_class :: "('c, 'tok, 'emb) labeled_world \<Rightarrow> string \<Rightarrow> 'c run" where
  "select_encoder_class w mp =
     (let available_encoder_classes_dict =
            dict_of (map (\<lambda>c. (class_name w c, c)) (map snd (KNOWN_ENCODER_CLASSES w)))
      in andthen (emit (LoadModelConfig mp)) (\<lambda>_.
         andthen (subscript0 (config_architectures w mp)) (\<lambda>architecture.
         getitem available_encoder_classes_dict architecture)))"

text \<open>Line 63: the dictionary comprehension over the blocks of the dataset.\<close>

fun embed_blocks ::
  "(string list \<Rightarrow> 'tok) \<Rightarrow> ('tok \<Rightarrow> 'emb) \<Rightarrow> (string \<times> string list) list \<Rightarrow>
   (string \<rightharpoonup> 'emb) \<Rightarrow> (string \<rightharpoonup> 'emb) run" where
  "embed_blocks tokenizer encoder [] embedded = ret embedded"
| "embed_blocks tokenizer encoder ((block_id, block_lines) # rest) embedded =
     andthen (encode_batch block_lines tokenizer encoder) (\<lambda>e.
     embed_blocks tokenizer encoder rest (embedded(block_id \<mapsto> e)))"

text \<open>Line 67: the list comprehension that looks every labelled block up.\<close>

fun getitem_each :: "('k \<rightharpoonup> 'v) \<Rightarrow> 'k list \<Rightarrow> 'v list run" where
  "getitem_each d [] = ret []"
| "getitem_each d (k # ks) =
     andthen (getitem d k) (\<lambda>v.
     andthen (getitem_each d ks) (\<lambda>vs. ret (v # vs)))"

text \<open>
  The whole of \<^verbatim>\<open>embed_dataset\<close>. The \<^verbatim>\<open>Label\<close> converter of line 47 turns a cell into
  the truth value of \<^verbatim>\<open>x == 'Anomaly'\<close>; line 73 stores it as an 8-bit integer.
\<close>

definition embed_dataset ::
  "('c, 'tok, 'emb) labeled_world \<Rightarrow> labeled_config \<Rightarrow> 'emb labeled_output run" where
  "embed_dataset w config =
     andthen (labeled_paths config) (\<lambda>(mp, dataset_path, label_path, output_path).
     andthen (py_assert (output_path_free (fs w output_path))) (\<lambda>_.
     andthen (emit (LoadDataset dataset_path)) (\<lambda>_.
     let dataset = load_hdfs1_log_file_grouped w dataset_path in
     andthen (emit (ReadCsv label_path)) (\<lambda>_.
     let labels_df = map (\<lambda>r. (BlockId r, Label r = ''Anomaly'')) (read_csv w label_path) in
     andthen (emit (LoadTokenizer (base_model_name config))) (\<lambda>_.
     let tokenizer = tokenizer_from_pretrained w (base_model_name config) in
     andthen (select_encoder_class w mp) (\<lambda>encoder_model_class.
     andthen (emit (LoadEncoder mp)) (\<lambda>_.
     let encoder_model = encoder_from_pretrained w encoder_model_class mp in
     andthen (emit SetEval) (\<lambda>_.
     andthen (embed_blocks tokenizer encoder_model dataset Map.empty) (\<lambda>embedded_dataset.
     andthen (getitem_each embedded_dataset (map fst labels_df)) (\<lambda>ordered_by_label.
     andthen (emit (Mkdir output_path)) (\<lambda>_.
     andthen (emit (WriteFile (joinpath output_path ''X.pickle''))) (\<lambda>_.
     andthen (emit (WriteFile (joinpath output_path ''y.npy''))) (\<lambda>_.
     ret \<lparr>X_pickle = ordered_by_label,
          y_npy = map (\<lambda>(block_id, anomaly). if anomaly then 1 else 0) labels_df\<rparr>)))))))))))))"

section \<open>encoders.py\<close>

subsection \<open>Tensors and the linear layer\<close>

text \<open>
  A tensor of shape (batch, features) is the list of its rows, one of shape
  (batch, positions, features) the list of its batch entries, each the list of its
  position vectors. The scalars are any type with a zero, an addition and a
  multiplication; no law of arithmetic is assumed of them.

  \<^verbatim>\<open>h[:, 0]\<close> takes position 0 of every batch entry and raises \<^verbatim>\<open>IndexError\<close> when
  there is no position 0.
\<close>

fun select_position0 :: "'v list list \<Rightarrow> py_error + 'v list" where
  "select_position0 [] = Inr []"
| "select_position0 (positions # rest) =
     (case positions of
        [] \<Rightarrow> Inl IndexError
      | first # _ \<Rightarrow>
          (case select_position0 rest of
             Inl e \<Rightarrow> Inl e
           | Inr firsts \<Rightarrow> Inr (first # firsts)))"

text \<open>
  \<^verbatim>\<open>torch.nn.Linear(in_features, out_features)\<close>: a weight matrix of \<open>out_features\<close>
  rows of \<open>in_features\<close> entries and a bias of \<open>out_features\<close> entries. \<open>w0\<close> and \<open>b0\<close>
  give the values the parameters hold (from \<^verbatim>\<open>init_weights\<close> or from a checkpoint).
  A negative size is refused.
\<close>

record 'a linear =
  in_features :: nat
  out_features :: nat
  weight :: "'a list list"
  bias :: "'a list"


text \<open>
  Applying the layer to a batch: every row \<open>x\<close> becomes the row of the values
  \<open>w \<bullet> x + b\<close>, one for each weight row \<open>w\<close> and its bias \<open>b\<close>; a row whose length is
  not \<open>in_features\<close> is a shape error.
\<close>

definition linear_row :: "'a::{zero,plus,times} linear \<Rightarrow> 'a list \<Rightarrow> 'a list" where
  "linear_row layer x =
     map2 (\<lambda>w b. foldl (+) 0 (map2 (*) x w) + b) (weight layer) (bias layer)"

definition linear_forward ::
  "'a::{zero,plus,times} linear \<Rightarrow> 'a list list \<Rightarrow> py_error + 'a list list" where
  "linear_forward layer rows =
     (if list_all (\<lambda>x. length x = in_features layer) rows
      then Inr (map (linear_row layer) rows)
      else Inl RuntimeError)"

subsection \<open>DistilBertForClsEmbedding\<close>

text \<open>
  The two fields of the model configuration the class reads. \<^verbatim>\<open>DistilBertModel\<close> is the
  transformers library's: as far as this class goes it is a function from the input ids
  and the attention mask to the last hidden state.
\<close>

record bert_config =
  dim :: int
  task_specific_params :: "(string \<rightharpoonup> int) option"

record 'a EmbeddingOutput =
  embedding :: "'a list list"

record ('i, 'm, 'a) DistilBertForClsEmbedding =
  distilbert :: "'i \<Rightarrow> 'm \<Rightarrow> 'a list list list"
  cls_projector :: "'a linear"



text \<open>\<^verbatim>\<open>forward\<close>, lines 31 to 35.\<close>

definition forward ::
  "('i, 'm, 'a::{zero,plus,times}) DistilBertForClsEmbedding \<Rightarrow> 'i \<Rightarrow> 'm \<Rightarrow>
   py_error + 'a EmbeddingOutput" where
  "forward self input_ids attention_mask =
     (let last_hidden_state = distilbert self input_ids attention_mask
      in case select_position0 last_hidden_state of
           Inl e \<Rightarrow> Inl e
         | Inr cls_token_embedding \<Rightarrow>
             (case linear_forward (cls_projector self) cls_token_embedding of
                Inl e \<Rightarrow> Inl e
              | Inr cls_encoding \<Rightarrow> Inr \<lparr>embedding = cls_encoding\<rparr>))"

section \<open>train\_ict\_preprocessed\_data.py\<close>

subsection \<open>Formatting\<close>

text \<open>\<^verbatim>\<open>str(n)\<close> for an integer, as an f-string prints it.\<close>

definition digit_char :: "nat \<Rightarrow> char" where
  "digit_char d = ''0123456789'' ! d"

fun str_nat :: "nat \<Rightarrow> string" where
  "str_nat n = (if n < 10 then [digit_char n] else str_nat (n div 10) @ [digit_char (n mod 10)])"

declare str_nat.simps [simp del]

definition str_int :: "int \<Rightarrow> string" where
  "str_int i = (if i < 0 then CHR ''-'' # str_nat (nat (- i)) else str_nat (nat i))"

text \<open>\<^verbatim>\<open>s.replace(old, new)\<close> for one-character \<open>old\<close> and \<open>new\<close>.\<close>

definition replace_char :: "char \<Rightarrow> char \<Rightarrow> string \<Rightarrow> string" where
  "replace_char old new s = map (\<lambda>c. if c = old then new else c) s"

subsection \<open>The run name\<close>

text \<open>
  \<^verbatim>\<open>get_run_name\<close>, lines 12 to 23. \<open>two_tower\<close> arrives as the integer of the
  \<^verbatim>\<open>--two-tower\<close> option and is tested for truth, which for an integer is being nonzero.
\<close>

definition get_run_name ::
  "int \<Rightarrow> bool \<Rightarrow> string \<Rightarrow> int \<Rightarrow> int \<Rightarrow> int \<Rightarrow> int \<Rightarrow> int \<Rightarrow> int \<Rightarrow> string \<Rightarrow> string \<Rightarrow> string" where
  "get_run_name two_tower fp16 dataset_name seed target_max_seq_len context_max_seq_len
       train_batch_size eval_batch_size output_encode_dim encoder_type pretrained_checkpoint =
     encoder_type @ '' '' @ pretrained_checkpoint @ '' '' @
     (if two_tower \<noteq> 0 then ''2T'' else ''1T'') @ (if fp16 then '' fp16'' else []) @
     '' '' @ dataset_name @ '' Seed-'' @ str_int seed @
     '' T-len '' @ str_int target_max_seq_len @
     '' C-len '' @ str_int context_max_seq_len @
     '' Tr-batch '' @ str_int train_batch_size @
     '' Ev-b '' @ str_int eval_batch_size @
     '' O-dim '' @ str_int output_encode_dim"

subsection \<open>run\_experiment\<close>

record train_config =
  two_tower :: int
  fp16 :: bool
  bert_model :: string
  encoder_type :: string
  train_batch_size :: int
  epochs :: int
  logging_steps :: int
  eval_steps :: int
  save_steps :: int
  save_total_limit :: int
  eval_batch_size :: int
  target_max_seq_len :: int
  context_max_seq_len :: int
  output_encode_dim :: int
  checkpoint_directory :: "string option"
  seed :: int
  dataset_name :: "string option"
  train_dataset :: "string option"
  eval_dataset :: "string option"
  wandb_project :: "string option"

text \<open>
  \<^verbatim>\<open>TwoTowerICT\<close> and \<^verbatim>\<open>OneTowerICT\<close> are classes of the module \<^verbatim>\<open>ict\<close>; a value
  here records which of the two was instantiated and with which arguments (the tower
  class, the pretrained model name and the output dimension).
\<close>

datatype 'c ict_model =
    is_TwoTowerICT: TwoTowerICT 'c string int
  | is_OneTowerICT: OneTowerICT 'c string int

text \<open>
  The keyword arguments of \<^verbatim>\<open>TrainingArguments\<close> that are computed; the others pass a
  configuration field on unchanged or are constants.
\<close>

record training_arguments =
  output_dir :: string
  run_name :: string

record 'c experiment_setup =
  model :: "'c ict_model"
  training_args :: training_arguments

text \<open>
  \<^verbatim>\<open>run_experiment\<close>, lines 26 to 91; \<open>known\<close> holds the items of
  \<^verbatim>\<open>KNOWN_ENCODER_CLASSES\<close>.
\<close>

definition run_experiment :: "(string \<times> 'c) list \<Rightarrow> train_config \<Rightarrow> 'c experiment_setup run" where
  "run_experiment known config =
     andthen (emit (SetEnviron ''WANDB_PROJECT''
                (case wandb_project config of None \<Rightarrow> ''ICT'' | Some p \<Rightarrow> p))) (\<lambda>_.
     (case dataset_name config of
        None \<Rightarrow> raise AssertionError
      | Some name \<Rightarrow>
     andthen (py_assert (dict_of known (encoder_type config) \<noteq> None)) (\<lambda>_.
     let RUN_NAME = get_run_name (two_tower config) (fp16 config) name (seed config)
                      (target_max_seq_len config) (context_max_seq_len config)
                      (train_batch_size config) (eval_batch_size config)
                      (output_encode_dim config) (encoder_type config) (bert_model config) in
     andthen (emit (LoadTokenizer (bert_model config))) (\<lambda>_.
     (case train_dataset config of
        None \<Rightarrow> raise AssertionError
      | Some train_dir \<Rightarrow>
     (case eval_dataset config of
        None \<Rightarrow> raise AssertionError
      | Some eval_dir \<Rightarrow>
     andthen (emit (LoadFromDisk (Path train_dir))) (\<lambda>_.
     andthen (emit (LoadFromDisk (Path eval_dir))) (\<lambda>_.
     andthen (getitem (dict_of known) (encoder_type config)) (\<lambda>tower_class.
     let model =
           (if two_tower config \<noteq> 0
            then TwoTowerICT tower_class (bert_model config) (output_encode_dim config)
            else OneTowerICT tower_class (bert_model config) (output_encode_dim config));
         training_args =
           \<lparr>output_dir = ''../../models/ICT/'' @ replace_char CHR '' '' CHR ''_'' RUN_NAME,
            run_name = RUN_NAME\<rparr> in
     andthen (emit (Train (checkpoint_directory config))) (\<lambda>_.
     andthen (emit SaveModel) (\<lambda>_.
     andthen (emit (SaveEncoder (replace_char CHR '' '' CHR ''_'' RUN_NAME)
                (Path ''../../models/encoders''))) (\<lambda>_.
     ret \<lparr>model = model, training_args = training_args\<rparr>))))))))))))"

section \<open>A small concrete run\<close>

text \<open>
  Inputs on which the scripts are evaluated below: a log of two blocks, a labels file of
  three rows, a tokenizer that measures each line and an encoder that doubles each
  measure.
\<close>

definition demo_world :: "(string, nat list, nat list list) labeled_world" where
  "demo_world =
     \<lparr>fs = (\<lambda>_. Absent),
      load_hdfs1_log_file_grouped = (\<lambda>_. [(''blk_1'', [''ab'', ''c'']), (''blk_2'', [''def''])]),
      read_csv = (\<lambda>_. [\<lparr>BlockId = ''blk_2'', Label = ''Anomaly''\<rparr>,
                        \<lparr>BlockId = ''blk_1'', Label = ''Normal''\<rparr>,
                        \<lparr>BlockId = ''blk_2'', Label = ''anomaly''\<rparr>]),
      tokenizer_from_pretrained = (\<lambda>_ batch. map length batch),
      KNOWN_ENCODER_CLASSES = [(''DistilbertCls'', ''DistilBertForClsEmbedding'')],
      class_name = (\<lambda>c. c),
      config_architectures = (\<lambda>_. Some [''DistilBertForClsEmbedding'']),
      encoder_from_pretrained = (\<lambda>_ _ tokens. map (\<lambda>n. [n, n]) tokens)\<rparr>"

definition demo_labeled_config :: labeled_config where
  "demo_labeled_config =
     \<lparr>model_path = Some ''models/enc.v1'', base_model_name = ''distilbert-base-cased'',
      dataset_output_name = None, output_parent_folder = Some ''out'',
      input_dataset_log_file = Some ''data/HDFS.log'',
      input_dataset_labels_csv = Some ''data/labels.csv''\<rparr>"

definition demo_raw_config :: raw_config where
  "demo_raw_config =
     \<lparr>model_path = Some ''models/enc.v1'', base_model_name = ''distilbert-base-cased'',
      dataset_output_name = None, output_parent_folder = Some ''out'',
      input_dataset_log_file = Some ''data/HDFS.log'',
      batch_size = 256, remove_hdfs1_timestamp = False, threads = 1\<rparr>"

definition demo_train_config :: train_config where
  "demo_train_config =
     \<lparr>two_tower = 1, fp16 = False, bert_model = ''distilbert-base-cased'',
      encoder_type = ''DistilbertCls'', train_batch_size = 64, epochs = 1, logging_steps = 10,
      eval_steps = 500, save_steps = 500, save_total_limit = 25, eval_batch_size = 64,
      target_max_seq_len = 512, context_max_seq_len = 512, output_encode_dim = 100,
      checkpoint_directory = None, seed = 42, dataset_name = Some ''HDFS1'',
      train_dataset = Some ''data/train'', eval_dataset = Some ''data/eval'',
      wandb_project = None\<rparr>"



section \<open>Properties\<close>

subsection \<open>Runs\<close>

lemma andthen_ret [simp]: "andthen (ret x) f = f x"
  by (simp add: andthen_def ret_def split: prod.splits)

lemma andthen_raise [simp]: "andthen (raise e) f = raise e"
  by (simp add: andthen_def raise_def)

lemma andthen_emit [simp]: "andthen (emit ev) f = (ev # fst (f ()), snd (f ()))"
  by (simp add: andthen_def emit_def split: prod.splits)

lemma andthen_pair_Inl [simp]: "andthen (t, Inl e) f = (t, Inl e)"
  by (simp add: andthen_def)

lemma andthen_pair_Inr [simp]: "andthen (t, Inr x) f = (t @ fst (f x), snd (f x))"
  by (simp add: andthen_def split: prod.splits)

lemma fst_ret [simp]: "fst (ret x) = []"
  by (simp add: ret_def)

lemma snd_ret [simp]: "snd (ret x) = Inr x"
  by (simp add: ret_def)

lemma fst_raise [simp]: "fst (raise e) = []"
  by (simp add: raise_def)

lemma snd_raise [simp]: "snd (raise e) = Inl e"
  by (simp add: raise_def)


lemma getitem_trace [simp]: "fst (getitem d k) = []"
  by (simp add: getitem_def split: option.splits)


lemma subscript0_trace [simp]: "fst (subscript0 xs) = []"
  by (cases xs rule: subscript0.cases) simp_all




lemma encode_batch_eq: "encode_batch b tok enc = ([EncodeBatch b], Inr (enc (tok b)))"
  by (simp add: encode_batch_def)





subsection \<open>The output path is checked before anything is read or written\<close>



subsection \<open>Dictionaries\<close>

lemma fold_update_eq:
  "fold (\<lambda>(k, v) m. m(k \<mapsto> f v)) items m = m ++ map_of (rev (map (\<lambda>(k, v). (k, f v)) items))"
proof (induction items arbitrary: m)
  case Nil
  show ?case by simp
next
  case (Cons kv items)
  obtain k v where kv: "kv = (k, v)" by (cases kv)
  have "fold (\<lambda>(k, v) m. m(k \<mapsto> f v)) (kv # items) m =
        fold (\<lambda>(k, v) m. m(k \<mapsto> f v)) items (m(k \<mapsto> f v))"
    by (simp add: kv)
  also have "\<dots> = m(k \<mapsto> f v) ++ map_of (rev (map (\<lambda>(k, v). (k, f v)) items))"
    by (rule Cons.IH)
  also have "\<dots> = m ++ map_of (rev (map (\<lambda>(k, v). (k, f v)) (kv # items)))"
    by (rule ext) (simp add: kv map_add_def split: option.splits)
  finally show ?case .
qed

lemma dict_of_eq: "dict_of items = map_of (rev items)"
  using fold_update_eq [of "\<lambda>v. v" items Map.empty] by (simp add: dict_of_def)

lemma dict_of_SomeD: "dict_of items k = Some v \<Longrightarrow> (k, v) \<in> set items"
  by (auto simp: dict_of_eq dest: map_of_SomeD)

lemma dict_of_None_iff: "dict_of items k = None \<longleftrightarrow> k \<notin> fst ` set items"
  by (simp add: dict_of_eq map_of_eq_None_iff)

lemma fold_update_lookup:
  "fold (\<lambda>(k, v) m. m(k \<mapsto> f v)) items Map.empty k = map_option f (dict_of items k)"
proof -
  have "map_of (map (\<lambda>(k, v). (k, f v)) (rev items)) k = map_option f (map_of (rev items) k)"
    by (induction "rev items" arbitrary: items) (auto simp: map_of_map)
  then show ?thesis
    by (simp add: fold_update_eq dict_of_eq rev_map)
qed

subsection \<open>The labeled script, step by step\<close>

lemma embed_blocks_eq:
  "embed_blocks tok enc items acc =
     (map (\<lambda>(block_id, block_lines). EncodeBatch block_lines) items,
      Inr (fold (\<lambda>(block_id, block_lines) m. m(block_id \<mapsto> enc (tok block_lines))) items acc))"
  by (induction items arbitrary: acc) (auto simp: encode_batch_eq ret_def)

lemma getitem_each_Inr:
  "getitem_each d ks = (t, Inr vs) \<Longrightarrow> t = [] \<and> map d ks = map Some vs"
proof (induction ks arbitrary: t vs)
  case Nil
  then show ?case by (simp add: ret_def)
next
  case (Cons k ks)
  show ?case
  proof (cases "d k")
    case None
    with Cons.prems show ?thesis by (simp add: getitem_def raise_def)
  next
    case (Some v)
    obtain t' r where r: "getitem_each d ks = (t', r)" by (cases "getitem_each d ks")
    show ?thesis
    proof (cases r)
      case (Inl e)
      with Cons.prems Some r show ?thesis by (simp add: getitem_def)
    next
      case (Inr vs')
      with Cons.prems Some r Cons.IH [of t' vs'] show ?thesis
        by (auto simp: getitem_def ret_def)
    qed
  qed
qed

lemma getitem_each_missing:
  "k \<in> set ks \<Longrightarrow> d k = None \<Longrightarrow> getitem_each d ks = ([], Inl KeyError)"
proof (induction ks)
  case Nil
  then show ?case by simp
next
  case (Cons a ks)
  show ?case
  proof (cases "d a")
    case None
    then show ?thesis by (simp add: getitem_def raise_def)
  next
    case (Some v)
    with Cons have "k \<in> set ks" by auto
    with Cons Some show ?thesis by (simp add: getitem_def)
  qed
qed

lemma select_encoder_class_Inr:
  assumes "select_encoder_class w mp = (t, Inr c)"
  shows "t = [LoadModelConfig mp] \<and> c \<in> snd ` set (KNOWN_ENCODER_CLASSES w) \<and>
         (\<exists>rest. config_architectures w mp = Some (class_name w c # rest))"
proof (cases "config_architectures w mp" rule: subscript0.cases)
  case 1
  with assms show ?thesis by (simp add: select_encoder_class_def raise_def)
next
  case 2
  with assms show ?thesis by (simp add: select_encoder_class_def raise_def)
next
  case (3 a rest)
  let ?d = "dict_of (map (\<lambda>c. (class_name w c, c)) (map snd (KNOWN_ENCODER_CLASSES w)))"
  from assms 3 have g: "getitem ?d a = ([], Inr c)" and t: "t = [LoadModelConfig mp]"
    by (auto simp: select_encoder_class_def Let_def getitem_def raise_def ret_def
        split: option.splits)
  then have "?d a = Some c" by (simp add: getitem_def raise_def ret_def split: option.splits)
  then have "(a, c) \<in> set (map (\<lambda>c. (class_name w c, c)) (map snd (KNOWN_ENCODER_CLASSES w)))"
    by (rule dict_of_SomeD)
  then have "a = class_name w c" and "c \<in> snd ` set (KNOWN_ENCODER_CLASSES w)" by auto
  with 3 t show ?thesis by simp
qed

lemma select_encoder_class_unknown:
  assumes "config_architectures w mp = Some (a # rest)"
    and "\<forall>c \<in> snd ` set (KNOWN_ENCODER_CLASSES w). class_name w c \<noteq> a"
  shows "select_encoder_class w mp = ([LoadModelConfig mp], Inl KeyError)"
proof -
  let ?d = "dict_of (map (\<lambda>c. (class_name w c, c)) (map snd (KNOWN_ENCODER_CLASSES w)))"
  have "?d a = None" using assms(2) by (auto simp: dict_of_None_iff)
  with assms(1) show ?thesis
    by (simp add: select_encoder_class_def Let_def getitem_def)
qed

lemma select_encoder_class_known:
  assumes "config_architectures w mp = Some (a # rest)"
    and "c0 \<in> snd ` set (KNOWN_ENCODER_CLASSES w)" and "class_name w c0 = a"
  shows "\<exists>c. select_encoder_class w mp = ([LoadModelConfig mp], Inr c)"
proof -
  let ?d = "dict_of (map (\<lambda>c. (class_name w c, c)) (map snd (KNOWN_ENCODER_CLASSES w)))"
  have "(a, c0) \<in> set (map (\<lambda>c. (class_name w c, c)) (map snd (KNOWN_ENCODER_CLASSES w)))"
    using assms(2,3) by auto
  then have "a \<in> fst ` set (map (\<lambda>c. (class_name w c, c)) (map snd (KNOWN_ENCODER_CLASSES w)))"
    by (rule image_eqI [rotated]) simp
  then have "?d a \<noteq> None" by (simp only: dict_of_None_iff not_not)
  then obtain c where "?d a = Some c" by auto
  with assms(1) show ?thesis
    by (simp add: select_encoder_class_def Let_def getitem_def ret_def)
qed

lemma labeled_paths_trace: "fst (labeled_paths lc) = []"
  by (simp add: labeled_paths_def Let_def split: option.splits)

lemma raw_paths_trace: "fst (raw_paths rc) = []"
  by (simp add: raw_paths_def Let_def split: option.splits)

lemma embed_dataset_Inr:
  assumes run: "embed_dataset w config = (t, Inr out)"
  shows "\<exists>mp dp lp outp c.
           labeled_paths config = ([], Inr (mp, dp, lp, outp)) \<and>
           output_path_free (fs w outp) \<and>
           select_encoder_class w mp = ([LoadModelConfig mp], Inr c) \<and>
           getitem_each
             (fold (\<lambda>(block_id, block_lines) m.
                      m(block_id \<mapsto> encoder_from_pretrained w c mp
                                       (tokenizer_from_pretrained w (base_model_name config) block_lines)))
                (load_hdfs1_log_file_grouped w dp) Map.empty)
             (map BlockId (read_csv w lp)) = ([], Inr (X_pickle out)) \<and>
           y_npy out = map (\<lambda>r. if Label r = ''Anomaly'' then 1 else 0) (read_csv w lp) \<and>
           t = [LoadDataset dp, ReadCsv lp, LoadTokenizer (base_model_name config),
                LoadModelConfig mp, LoadEncoder mp, SetEval] @
               map (\<lambda>(block_id, block_lines). EncodeBatch block_lines)
                 (load_hdfs1_log_file_grouped w dp) @
               [Mkdir outp, WriteFile (joinpath outp ''X.pickle''),
                WriteFile (joinpath outp ''y.npy'')]"
proof -
  obtain r0 where paths: "labeled_paths config = ([], r0)"
    using labeled_paths_trace [of config] by (cases "labeled_paths config") simp
  show ?thesis
  proof (cases r0)
    case (Inl e)
    with run paths show ?thesis by (simp add: embed_dataset_def)
  next
    case (Inr quad)
    obtain mp dp lp outp where quad: "quad = (mp, dp, lp, outp)" by (cases quad)
    have free: "output_path_free (fs w outp)"
    proof (rule ccontr)
      assume "\<not> output_path_free (fs w outp)"
      with run paths Inr quad show False
        by (simp add: embed_dataset_def py_assert_def raise_def)
    qed
    obtain t1 r1 where sel: "select_encoder_class w mp = (t1, r1)"
      by (cases "select_encoder_class w mp")
    show ?thesis
    proof (cases r1)
      case (Inl e)
      with run paths Inr quad free sel show ?thesis
        by (simp add: embed_dataset_def py_assert_def Let_def)
    next
      case c: (Inr c)
      from sel c have t1: "t1 = [LoadModelConfig mp]"
        using select_encoder_class_Inr [of w mp t1 c] by simp
      let ?emb = "fold (\<lambda>(block_id, block_lines) m.
                      m(block_id \<mapsto> encoder_from_pretrained w c mp
                                       (tokenizer_from_pretrained w (base_model_name config) block_lines)))
                (load_hdfs1_log_file_grouped w dp) Map.empty"
      obtain t2 r2 where get: "getitem_each ?emb (map BlockId (read_csv w lp)) = (t2, r2)"
        by (cases "getitem_each ?emb (map BlockId (read_csv w lp))")
      show ?thesis
      proof (cases r2)
        case (Inl e)
        with run paths Inr quad free sel c get show ?thesis
          by (simp add: embed_dataset_def py_assert_def Let_def embed_blocks_eq comp_def)
      next
        case X: (Inr X)
        from get X have t2: "t2 = []" using getitem_each_Inr [of ?emb _ t2 X] by simp
        from run paths Inr quad free sel c get X t1 t2
        have "out = \<lparr>X_pickle = X,
                     y_npy = map (\<lambda>(block_id, anomaly). if anomaly then 1 else 0)
                               (map (\<lambda>r. (BlockId r, Label r = ''Anomaly'')) (read_csv w lp))\<rparr>"
          and tr: "t = [LoadDataset dp, ReadCsv lp, LoadTokenizer (base_model_name config),
                LoadModelConfig mp, LoadEncoder mp, SetEval] @
               map (\<lambda>(block_id, block_lines). EncodeBatch block_lines)
                 (load_hdfs1_log_file_grouped w dp) @
               [Mkdir outp, WriteFile (joinpath outp ''X.pickle''),
                WriteFile (joinpath outp ''y.npy'')]"
          by (simp_all add: embed_dataset_def py_assert_def Let_def embed_blocks_eq comp_def)
        then have "X_pickle out = X"
          and "y_npy out = map (\<lambda>r. if Label r = ''Anomaly'' then 1 else 0) (read_csv w lp)"
          by (simp_all add: comp_def)
        with paths Inr quad free sel c t1 get X t2 tr show ?thesis by simp
      qed
    qed
  qed
qed

subsection \<open>The concrete run, evaluated\<close>

lemma demo_labeled_paths:
  "labeled_paths demo_labeled_config =
     ([], Inr (''models/enc.v1'', \<lparr>p_root = [], p_parts = [''data'', ''HDFS.log'']\<rparr>,
               \<lparr>p_root = [], p_parts = [''data'', ''labels.csv'']\<rparr>,
               \<lparr>p_root = [], p_parts = [''out'', ''HDFS'', ''labeled_embedding_from_enc'']\<rparr>))"
  by (simp add: labeled_paths_def demo_labeled_config_def ret_def Let_def Path_def joinpath_def
      path_stem_def path_name_def rfind_def is_component_def)

lemma demo_select: "select_encoder_class demo_world mp = ([LoadModelConfig mp], Inr ''DistilBertForClsEmbedding'')"
  by (simp add: select_encoder_class_def demo_world_def dict_of_def getitem_def ret_def)

lemma demo_embed_dataset:
  "embed_dataset demo_world demo_labeled_config =
     ([LoadDataset \<lparr>p_root = [], p_parts = [''data'', ''HDFS.log'']\<rparr>,
       ReadCsv \<lparr>p_root = [], p_parts = [''data'', ''labels.csv'']\<rparr>,
       LoadTokenizer ''distilbert-base-cased'', LoadModelConfig ''models/enc.v1'',
       LoadEncoder ''models/enc.v1'', SetEval,
       EncodeBatch [''ab'', ''c''], EncodeBatch [''def''],
       Mkdir \<lparr>p_root = [], p_parts = [''out'', ''HDFS'', ''labeled_embedding_from_enc'']\<rparr>,
       WriteFile \<lparr>p_root = [], p_parts = [''out'', ''HDFS'', ''labeled_embedding_from_enc'', ''X.pickle'']\<rparr>,
       WriteFile \<lparr>p_root = [], p_parts = [''out'', ''HDFS'', ''labeled_embedding_from_enc'', ''y.npy'']\<rparr>],
      Inr \<lparr>X_pickle = [[[3, 3]], [[2, 2], [1, 1]], [[3, 3]]], y_npy = [1, 0, 0]\<rparr>)"
  unfolding embed_dataset_def demo_labeled_paths demo_select
  by (simp add: demo_world_def demo_labeled_config_def py_assert_def embed_blocks_eq getitem_def
      ret_def Let_def Path_def joinpath_def is_component_def)

subsection \<open>Labels and embeddings are aligned by the row order of the labels file\<close>

lemma completed_run_rows:
  "embed_dataset w config = (t, Inr out) \<longrightarrow>
     (\<exists>mp dp lp outp c.
        labeled_paths config = ([], Inr (mp, dp, lp, outp)) \<and>
        select_encoder_class w mp = ([LoadModelConfig mp], Inr c) \<and>
        length (X_pickle out) = length (read_csv w lp) \<and>
        length (y_npy out) = length (read_csv w lp) \<and>
        (\<forall>i < length (read_csv w lp).
           (\<exists>block_lines.
              dict_of (load_hdfs1_log_file_grouped w dp) (BlockId (read_csv w lp ! i)) =
                Some block_lines \<and>
              X_pickle out ! i =
                encoder_from_pretrained w c mp
                  (tokenizer_from_pretrained w (base_model_name config) block_lines)) \<and>
           y_npy out ! i = (if Label (read_csv w lp ! i) = ''Anomaly'' then 1 else 0)))"
proof
  assume run: "embed_dataset w config = (t, Inr out)"
  from embed_dataset_Inr [OF run] obtain mp dp lp outp c where
    paths: "labeled_paths config = ([], Inr (mp, dp, lp, outp))" and
    sel: "select_encoder_class w mp = ([LoadModelConfig mp], Inr c)" and
    get: "getitem_each
             (fold (\<lambda>(block_id, block_lines) m.
                      m(block_id \<mapsto> encoder_from_pretrained w c mp
                                       (tokenizer_from_pretrained w (base_model_name config) block_lines)))
                (load_hdfs1_log_file_grouped w dp) Map.empty)
             (map BlockId (read_csv w lp)) = ([], Inr (X_pickle out))" and
    y: "y_npy out = map (\<lambda>r. if Label r = ''Anomaly'' then 1 else 0) (read_csv w lp)"
    by blast
  let ?f = "\<lambda>block_lines. encoder_from_pretrained w c mp
              (tokenizer_from_pretrained w (base_model_name config) block_lines)"
  let ?rows = "read_csv w lp"
  have eq: "fold (\<lambda>(block_id, block_lines) m. m(block_id \<mapsto> ?f block_lines))
              (load_hdfs1_log_file_grouped w dp) Map.empty =
            (\<lambda>k. map_option ?f (dict_of (load_hdfs1_log_file_grouped w dp) k))"
    by (rule ext) (rule fold_update_lookup)
  from getitem_each_Inr [OF get]
  have m: "map (\<lambda>k. map_option ?f (dict_of (load_hdfs1_log_file_grouped w dp) k))
             (map BlockId ?rows) = map Some (X_pickle out)"
    unfolding eq by simp
  from arg_cong [OF m, of length] have lenX: "length (X_pickle out) = length ?rows" by simp
  from y have lenY: "length (y_npy out) = length ?rows" by simp
  have rows: "\<forall>i < length ?rows.
           (\<exists>block_lines.
              dict_of (load_hdfs1_log_file_grouped w dp) (BlockId (?rows ! i)) = Some block_lines \<and>
              X_pickle out ! i = ?f block_lines) \<and>
           y_npy out ! i = (if Label (?rows ! i) = ''Anomaly'' then 1 else 0)"
  proof (intro allI impI)
    fix i assume i: "i < length ?rows"
    from arg_cong [OF m, of "\<lambda>xs. xs ! i"] i lenX
    have "map_option ?f (dict_of (load_hdfs1_log_file_grouped w dp) (BlockId (?rows ! i))) =
            Some (X_pickle out ! i)"
      by simp
    then have "\<exists>block_lines.
              dict_of (load_hdfs1_log_file_grouped w dp) (BlockId (?rows ! i)) = Some block_lines \<and>
              X_pickle out ! i = ?f block_lines"
      by auto
    moreover from y i have "y_npy out ! i = (if Label (?rows ! i) = ''Anomaly'' then 1 else 0)"
      by simp
    ultimately show "(\<exists>block_lines.
              dict_of (load_hdfs1_log_file_grouped w dp) (BlockId (?rows ! i)) = Some block_lines \<and>
              X_pickle out ! i = ?f block_lines) \<and>
           y_npy out ! i = (if Label (?rows ! i) = ''Anomaly'' then 1 else 0)"
      by simp
  qed
  from paths sel lenX lenY rows
  show "\<exists>mp dp lp outp c.
        labeled_paths config = ([], Inr (mp, dp, lp, outp)) \<and>
        select_encoder_class w mp = ([LoadModelConfig mp], Inr c) \<and>
        length (X_pickle out) = length (read_csv w lp) \<and>
        length (y_npy out) = length (read_csv w lp) \<and>
        (\<forall>i < length (read_csv w lp).
           (\<exists>block_lines.
              dict_of (load_hdfs1_log_file_grouped w dp) (BlockId (read_csv w lp ! i)) =
                Some block_lines \<and>
              X_pickle out ! i =
                encoder_from_pretrained w c mp
                  (tokenizer_from_pretrained w (base_model_name config) block_lines)) \<and>
           y_npy out ! i = (if Label (read_csv w lp ! i) = ''Anomaly'' then 1 else 0))"
    by blast
qed

text \<open>
  C1. Whenever the labeled script's \<^verbatim>\<open>embed_dataset\<close> completes, the list pickled to
  \<^verbatim>\<open>X.pickle\<close> and the array saved to \<^verbatim>\<open>y.npy\<close> have one entry for every row of
  the labels file, in the file's order: entry \<open>i\<close> of the list is the embedding the
  loaded encoder gives for the lines of the block named in row \<open>i\<close>, and entry \<open>i\<close> of
  the array is 1 if the row's \<^verbatim>\<open>Label\<close> cell is the string \<^verbatim>\<open>Anomaly\<close> and 0
  otherwise.
\<close>

theorem labeled_outputs_aligned:
  "embed_dataset w config = (t, Inr out) \<longrightarrow>
     (\<exists>mp dp lp outp c.
        labeled_paths config = ([], Inr (mp, dp, lp, outp)) \<and>
        select_encoder_class w mp = ([LoadModelConfig mp], Inr c) \<and>
        length (X_pickle out) = length (read_csv w lp) \<and>
        length (y_npy out) = length (read_csv w lp) \<and>
        (\<forall>i < length (read_csv w lp).
           (\<exists>block_lines.
              dict_of (load_hdfs1_log_file_grouped w dp) (BlockId (read_csv w lp ! i)) =
                Some block_lines \<and>
              X_pickle out ! i =
                encoder_from_pretrained w c mp
                  (tokenizer_from_pretrained w (base_model_name config) block_lines)) \<and>
           y_npy out ! i = (if Label (read_csv w lp ! i) = ''Anomaly'' then 1 else 0)))"
  by (rule completed_run_rows)

theorem labeled_outputs_aligned_witness:
  "snd (embed_dataset demo_world demo_labeled_config) =
     Inr \<lparr>X_pickle = [[[3, 3]], [[2, 2], [1, 1]], [[3, 3]]], y_npy = [1, 0, 0]\<rparr> \<and>
   (\<exists>mp dp lp outp c.
      labeled_paths demo_labeled_config = ([], Inr (mp, dp, lp, outp)) \<and>
      select_encoder_class demo_world mp = ([LoadModelConfig mp], Inr c) \<and>
      length [[[3, 3]], [[2, 2], [1, 1]], [[3::nat, 3]]] = length (read_csv demo_world lp))"
proof -
  have run: "embed_dataset demo_world demo_labeled_config =
      (fst (embed_dataset demo_world demo_labeled_config),
       Inr \<lparr>X_pickle = [[[3, 3]], [[2, 2], [1, 1]], [[3, 3]]], y_npy = [1, 0, 0]\<rparr>)"
    by (simp add: demo_embed_dataset)
  from labeled_outputs_aligned [of demo_world demo_labeled_config
      "fst (embed_dataset demo_world demo_labeled_config)"
      "\<lparr>X_pickle = [[[3, 3]], [[2, 2], [1, 1]], [[3, 3]]], y_npy = [1, 0, 0]\<rparr>"] run
  obtain mp dp lp outp c where
    "labeled_paths demo_labeled_config = ([], Inr (mp, dp, lp, outp))"
    "select_encoder_class demo_world mp = ([LoadModelConfig mp], Inr c)"
    "length (X_pickle \<lparr>X_pickle = [[[3, 3]], [[2, 2], [1, 1]], [[3::nat, 3]]],
                      y_npy = [1, 0, 0]\<rparr>) = length (read_csv demo_world lp)"
    by blast
  then have "\<exists>mp dp lp outp c.
      labeled_paths demo_labeled_config = ([], Inr (mp, dp, lp, outp)) \<and>
      select_encoder_class demo_world mp = ([LoadModelConfig mp], Inr c) \<and>
      length [[[3, 3]], [[2, 2], [1, 1]], [[3::nat, 3]]] = length (read_csv demo_world lp)"
    by auto
  then show ?thesis by (simp add: demo_embed_dataset)
qed

subsection \<open>The block is the unit of embedding\<close>

text \<open>
  C4. The dictionary comprehension of the labeled script calls \<^verbatim>\<open>encode_batch\<close> once
  for every block of the grouped dataset, in the dataset's order, each time with all the
  lines of that block, and the dictionary it builds maps a block identifier to the
  embedding of exactly the lines the dataset holds for it (and holds nothing else). In a
  completed run of \<^verbatim>\<open>embed_dataset\<close> these calls are the only encoder calls: they come
  after the encoder is loaded and put in evaluation mode and before anything is written.
\<close>

theorem one_encode_call_per_block:
  "embed_blocks tokenizer encoder dataset Map.empty =
     (map (\<lambda>(block_id, block_lines). EncodeBatch block_lines) dataset,
      Inr (\<lambda>block_id. map_option (\<lambda>block_lines. encoder (tokenizer block_lines))
                         (dict_of dataset block_id))) \<and>
   (embed_dataset w config = (t, Inr out) \<longrightarrow>
      (\<exists>mp dp lp outp.
         labeled_paths config = ([], Inr (mp, dp, lp, outp)) \<and>
         t = [LoadDataset dp, ReadCsv lp, LoadTokenizer (base_model_name config),
              LoadModelConfig mp, LoadEncoder mp, SetEval] @
             map (\<lambda>(block_id, block_lines). EncodeBatch block_lines)
               (load_hdfs1_log_file_grouped w dp) @
             [Mkdir outp, WriteFile (joinpath outp ''X.pickle''),
              WriteFile (joinpath outp ''y.npy'')]))"
proof
  have "fold (\<lambda>(block_id, block_lines) m. m(block_id \<mapsto> encoder (tokenizer block_lines)))
          dataset Map.empty =
        (\<lambda>block_id. map_option (\<lambda>block_lines. encoder (tokenizer block_lines))
                         (dict_of dataset block_id))"
    by (rule ext) (rule fold_update_lookup)
  then show "embed_blocks tokenizer encoder dataset Map.empty =
     (map (\<lambda>(block_id, block_lines). EncodeBatch block_lines) dataset,
      Inr (\<lambda>block_id. map_option (\<lambda>block_lines. encoder (tokenizer block_lines))
                         (dict_of dataset block_id)))"
    by (simp add: embed_blocks_eq)
next
  show "embed_dataset w config = (t, Inr out) \<longrightarrow>
      (\<exists>mp dp lp outp.
         labeled_paths config = ([], Inr (mp, dp, lp, outp)) \<and>
         t = [LoadDataset dp, ReadCsv lp, LoadTokenizer (base_model_name config),
              LoadModelConfig mp, LoadEncoder mp, SetEval] @
             map (\<lambda>(block_id, block_lines). EncodeBatch block_lines)
               (load_hdfs1_log_file_grouped w dp) @
             [Mkdir outp, WriteFile (joinpath outp ''X.pickle''),
              WriteFile (joinpath outp ''y.npy'')])"
  proof
    assume "embed_dataset w config = (t, Inr out)"
    from embed_dataset_Inr [OF this] show "\<exists>mp dp lp outp.
         labeled_paths config = ([], Inr (mp, dp, lp, outp)) \<and>
         t = [LoadDataset dp, ReadCsv lp, LoadTokenizer (base_model_name config),
              LoadModelConfig mp, LoadEncoder mp, SetEval] @
             map (\<lambda>(block_id, block_lines). EncodeBatch block_lines)
               (load_hdfs1_log_file_grouped w dp) @
             [Mkdir outp, WriteFile (joinpath outp ''X.pickle''),
              WriteFile (joinpath outp ''y.npy'')]"
      by blast
  qed
qed

theorem one_encode_call_per_block_witness:
  "fst (embed_blocks (map length) (map (\<lambda>n. [n, n]))
          [(''blk_1'', [''ab'', ''c'']), (''blk_2'', [''def''])] Map.empty) =
     [EncodeBatch [''ab'', ''c''], EncodeBatch [''def'']] \<and>
   (\<exists>t out. embed_dataset demo_world demo_labeled_config = (t, Inr out) \<and>
      (\<exists>mp dp lp outp.
         labeled_paths demo_labeled_config = ([], Inr (mp, dp, lp, outp)) \<and>
         t = [LoadDataset dp, ReadCsv lp, LoadTokenizer ''distilbert-base-cased'',
              LoadModelConfig mp, LoadEncoder mp, SetEval,
              EncodeBatch [''ab'', ''c''], EncodeBatch [''def''],
              Mkdir outp, WriteFile (joinpath outp ''X.pickle''),
              WriteFile (joinpath outp ''y.npy'')]))"
  using one_encode_call_per_block [of "map length" "map (\<lambda>n. [n, n])"
      "[(''blk_1'', [''ab'', ''c'']), (''blk_2'', [''def''])]"
      demo_world demo_labeled_config
      "fst (embed_dataset demo_world demo_labeled_config)"
      "\<lparr>X_pickle = [[[3, 3]], [[2, 2], [1, 1]], [[3, 3]]], y_npy = [1, 0, 0]\<rparr>"]
  by (simp add: demo_embed_dataset demo_labeled_paths joinpath_def Path_def is_component_def)

subsection \<open>The encoder class is looked up by the saved architecture name\<close>

text \<open>
  C9. The class the labeled script loads the encoder with is a value of
  \<^verbatim>\<open>KNOWN_ENCODER_CLASSES\<close> whose \<^verbatim>\<open>__name__\<close> is the first entry of the saved
  configuration's \<^verbatim>\<open>architectures\<close>; such a class is found whenever one is known;
  when no known class has that name the run ends with \<^verbatim>\<open>KeyError\<close> right after
  the configuration is read, before the encoder is loaded or any batch encoded; and in
  every completed run the class found by that lookup is the one the encoder is loaded
  with: each embedding written is the output of the encoder loaded from the model path
  with that class.
\<close>

theorem encoder_class_by_architecture:
  "(select_encoder_class w mp = (t, Inr c) \<longrightarrow>
      c \<in> snd ` set (KNOWN_ENCODER_CLASSES w) \<and>
      (\<exists>rest. config_architectures w mp = Some (class_name w c # rest))) \<and>
   (config_architectures w mp = Some (a # others) \<and>
    c0 \<in> snd ` set (KNOWN_ENCODER_CLASSES w) \<and> class_name w c0 = a \<longrightarrow>
      (\<exists>c'. select_encoder_class w mp = ([LoadModelConfig mp], Inr c'))) \<and>
   (config_architectures w mp = Some (a # others) \<and>
    (\<forall>k \<in> snd ` set (KNOWN_ENCODER_CLASSES w). class_name w k \<noteq> a) \<and>
    labeled_paths config = ([], Inr (mp, dp, lp, outp)) \<and> output_path_free (fs w outp) \<longrightarrow>
      embed_dataset w config =
        ([LoadDataset dp, ReadCsv lp, LoadTokenizer (base_model_name config), LoadModelConfig mp],
         Inl KeyError)) \<and>
   (embed_dataset w config = (u, Inr out) \<longrightarrow>
      (\<exists>m d l p k.
         labeled_paths config = ([], Inr (m, d, l, p)) \<and>
         select_encoder_class w m = ([LoadModelConfig m], Inr k) \<and>
         k \<in> snd ` set (KNOWN_ENCODER_CLASSES w) \<and>
         (\<exists>rest. config_architectures w m = Some (class_name w k # rest)) \<and>
         (\<forall>i < length (read_csv w l).
            \<exists>block_lines.
              dict_of (load_hdfs1_log_file_grouped w d) (BlockId (read_csv w l ! i)) =
                Some block_lines \<and>
              X_pickle out ! i =
                encoder_from_pretrained w k m
                  (tokenizer_from_pretrained w (base_model_name config) block_lines))))"
proof (intro conjI impI)
  assume "select_encoder_class w mp = (t, Inr c)"
  from select_encoder_class_Inr [OF this]
  show "c \<in> snd ` set (KNOWN_ENCODER_CLASSES w)"
    and "\<exists>rest. config_architectures w mp = Some (class_name w c # rest)"
    by simp_all
next
  assume "config_architectures w mp = Some (a # others) \<and>
    c0 \<in> snd ` set (KNOWN_ENCODER_CLASSES w) \<and> class_name w c0 = a"
  then show "\<exists>c'. select_encoder_class w mp = ([LoadModelConfig mp], Inr c')"
    using select_encoder_class_known [of w mp a others c0] by simp
next
  assume h: "config_architectures w mp = Some (a # others) \<and>
    (\<forall>k \<in> snd ` set (KNOWN_ENCODER_CLASSES w). class_name w k \<noteq> a) \<and>
    labeled_paths config = ([], Inr (mp, dp, lp, outp)) \<and> output_path_free (fs w outp)"
  then have "select_encoder_class w mp = ([LoadModelConfig mp], Inl KeyError)"
    using select_encoder_class_unknown [of w mp a others] by simp
  with h show "embed_dataset w config =
        ([LoadDataset dp, ReadCsv lp, LoadTokenizer (base_model_name config), LoadModelConfig mp],
         Inl KeyError)"
    by (simp add: embed_dataset_def py_assert_def Let_def)
next
  assume run: "embed_dataset w config = (u, Inr out)"
  from completed_run_rows [of w config u out] run obtain m d l p k where
    paths: "labeled_paths config = ([], Inr (m, d, l, p))" and
    sel: "select_encoder_class w m = ([LoadModelConfig m], Inr k)" and
    rows: "\<forall>i < length (read_csv w l).
           (\<exists>block_lines.
              dict_of (load_hdfs1_log_file_grouped w d) (BlockId (read_csv w l ! i)) =
                Some block_lines \<and>
              X_pickle out ! i =
                encoder_from_pretrained w k m
                  (tokenizer_from_pretrained w (base_model_name config) block_lines)) \<and>
           y_npy out ! i = (if Label (read_csv w l ! i) = ''Anomaly'' then 1 else 0)"
    by blast
  from select_encoder_class_Inr [OF sel]
  have known: "k \<in> snd ` set (KNOWN_ENCODER_CLASSES w)"
    and arch: "\<exists>rest. config_architectures w m = Some (class_name w k # rest)"
    by simp_all
  from rows have rows': "\<forall>i < length (read_csv w l).
            \<exists>block_lines.
              dict_of (load_hdfs1_log_file_grouped w d) (BlockId (read_csv w l ! i)) =
                Some block_lines \<and>
              X_pickle out ! i =
                encoder_from_pretrained w k m
                  (tokenizer_from_pretrained w (base_model_name config) block_lines)"
    by blast
  show "\<exists>m d l p k.
         labeled_paths config = ([], Inr (m, d, l, p)) \<and>
         select_encoder_class w m = ([LoadModelConfig m], Inr k) \<and>
         k \<in> snd ` set (KNOWN_ENCODER_CLASSES w) \<and>
         (\<exists>rest. config_architectures w m = Some (class_name w k # rest)) \<and>
         (\<forall>i < length (read_csv w l).
            \<exists>block_lines.
              dict_of (load_hdfs1_log_file_grouped w d) (BlockId (read_csv w l ! i)) =
                Some block_lines \<and>
              X_pickle out ! i =
                encoder_from_pretrained w k m
                  (tokenizer_from_pretrained w (base_model_name config) block_lines))"
    using paths sel known arch rows'
    apply -
    apply (rule exI [of _ m])
    apply (rule exI [of _ d])
    apply (rule exI [of _ l])
    apply (rule exI [of _ p])
    apply (rule exI [of _ k])
    apply (intro conjI; assumption)
    done
qed

theorem encoder_class_by_architecture_witness:
  "select_encoder_class demo_world ''models/enc.v1'' =
     ([LoadModelConfig ''models/enc.v1''], Inr ''DistilBertForClsEmbedding'') \<and>
   embed_dataset (demo_world\<lparr>config_architectures := (\<lambda>_. Some [''BertForCls''])\<rparr>)
       demo_labeled_config =
     ([LoadDataset \<lparr>p_root = [], p_parts = [''data'', ''HDFS.log'']\<rparr>,
       ReadCsv \<lparr>p_root = [], p_parts = [''data'', ''labels.csv'']\<rparr>,
       LoadTokenizer ''distilbert-base-cased'', LoadModelConfig ''models/enc.v1''],
      Inl KeyError) \<and>
   snd (embed_dataset demo_world demo_labeled_config) =
     Inr \<lparr>X_pickle = [[[3, 3]], [[2, 2], [1, 1]], [[3, 3]]], y_npy = [1, 0, 0]\<rparr> \<and>
   (\<exists>m k. select_encoder_class demo_world m = ([LoadModelConfig m], Inr k) \<and>
      k \<in> snd ` set (KNOWN_ENCODER_CLASSES demo_world) \<and>
      (\<exists>rest. config_architectures demo_world m = Some (class_name demo_world k # rest)))"
proof -
  have first: "select_encoder_class demo_world ''models/enc.v1'' =
     ([LoadModelConfig ''models/enc.v1''], Inr ''DistilBertForClsEmbedding'') \<and>
   embed_dataset (demo_world\<lparr>config_architectures := (\<lambda>_. Some [''BertForCls''])\<rparr>)
       demo_labeled_config =
     ([LoadDataset \<lparr>p_root = [], p_parts = [''data'', ''HDFS.log'']\<rparr>,
       ReadCsv \<lparr>p_root = [], p_parts = [''data'', ''labels.csv'']\<rparr>,
       LoadTokenizer ''distilbert-base-cased'', LoadModelConfig ''models/enc.v1''],
      Inl KeyError)"
    using encoder_class_by_architecture [of
      "demo_world\<lparr>config_architectures := (\<lambda>_. Some [''BertForCls''])\<rparr>"
      "''models/enc.v1''" "[LoadModelConfig ''models/enc.v1'']" "''DistilBertForClsEmbedding''"
      "''BertForCls''" "[]" "''DistilBertForClsEmbedding''" demo_labeled_config
      "\<lparr>p_root = [], p_parts = [''data'', ''HDFS.log'']\<rparr>"
      "\<lparr>p_root = [], p_parts = [''data'', ''labels.csv'']\<rparr>"
      "\<lparr>p_root = [], p_parts = [''out'', ''HDFS'', ''labeled_embedding_from_enc'']\<rparr>"]
    by (simp add: demo_select demo_labeled_paths)
      (simp add: demo_world_def demo_labeled_config_def)
  have run: "embed_dataset demo_world demo_labeled_config =
      (fst (embed_dataset demo_world demo_labeled_config),
       Inr \<lparr>X_pickle = [[[3, 3]], [[2, 2], [1, 1]], [[3, 3]]], y_npy = [1, 0, 0]\<rparr>)"
    by (simp add: demo_embed_dataset)
  from encoder_class_by_architecture [of demo_world "''models/enc.v1''"
      "[LoadModelConfig ''models/enc.v1'']" "''DistilBertForClsEmbedding''"
      "''DistilBertForClsEmbedding''" "[]" "''DistilBertForClsEmbedding''" demo_labeled_config
      "\<lparr>p_root = [], p_parts = [''data'', ''HDFS.log'']\<rparr>"
      "\<lparr>p_root = [], p_parts = [''data'', ''labels.csv'']\<rparr>"
      "\<lparr>p_root = [], p_parts = [''out'', ''HDFS'', ''labeled_embedding_from_enc'']\<rparr>"
      "fst (embed_dataset demo_world demo_labeled_config)"
      "\<lparr>X_pickle = [[[3, 3]], [[2, 2], [1, 1]], [[3, 3]]], y_npy = [1, 0, 0]\<rparr>"] run
  have "\<exists>m k. select_encoder_class demo_world m = ([LoadModelConfig m], Inr k) \<and>
      k \<in> snd ` set (KNOWN_ENCODER_CLASSES demo_world) \<and>
      (\<exists>rest. config_architectures demo_world m = Some (class_name demo_world k # rest))"
    by blast
  with first show ?thesis by (simp add: demo_embed_dataset)
qed

subsection \<open>One tower or two\<close>

lemma run_experiment_Inr:
  assumes "run_experiment known config = (t, Inr ex)"
  shows "\<exists>name c.
           dataset_name config = Some name \<and>
           dict_of known (encoder_type config) = Some c \<and>
           model ex =
             (if two_tower config \<noteq> 0
              then TwoTowerICT c (bert_model config) (output_encode_dim config)
              else OneTowerICT c (bert_model config) (output_encode_dim config)) \<and>
           run_name (training_args ex) =
             get_run_name (two_tower config) (fp16 config) name (seed config)
               (target_max_seq_len config) (context_max_seq_len config)
               (train_batch_size config) (eval_batch_size config)
               (output_encode_dim config) (encoder_type config) (bert_model config) \<and>
           output_dir (training_args ex) =
             ''../../models/ICT/'' @ replace_char CHR '' '' CHR ''_'' (run_name (training_args ex))"
  using assms
  by (auto simp: run_experiment_def py_assert_def getitem_def Let_def raise_def ret_def
      split: option.splits if_splits)

text \<open>
  C5. Whenever \<^verbatim>\<open>run_experiment\<close> gets as far as building the model, the model is a
  \<^verbatim>\<open>TwoTowerICT\<close> exactly when \<^verbatim>\<open>config.two_tower\<close> is nonzero and a
  \<^verbatim>\<open>OneTowerICT\<close> otherwise, built from the tower class registered for
  \<^verbatim>\<open>config.encoder_type\<close>; two runs whose \<^verbatim>\<open>two_tower\<close> agree in being zero or
  nonzero build the same kind of model whatever their other fields.
\<close>

theorem tower_choice:
  "(run_experiment known config = (t, Inr ex) \<longrightarrow>
      (is_TwoTowerICT (model ex) \<longleftrightarrow> two_tower config \<noteq> 0) \<and>
      (is_OneTowerICT (model ex) \<longleftrightarrow> two_tower config = 0) \<and>
      (\<exists>c. dict_of known (encoder_type config) = Some c \<and>
           model ex =
             (if two_tower config \<noteq> 0
              then TwoTowerICT c (bert_model config) (output_encode_dim config)
              else OneTowerICT c (bert_model config) (output_encode_dim config)))) \<and>
   (run_experiment known config = (t, Inr ex) \<and>
    run_experiment known' config' = (t', Inr ex') \<and>
    (two_tower config = 0 \<longleftrightarrow> two_tower config' = 0) \<longrightarrow>
      (is_TwoTowerICT (model ex) \<longleftrightarrow> is_TwoTowerICT (model ex')))"
proof (intro conjI impI)
  assume run: "run_experiment known config = (t, Inr ex)"
  from run_experiment_Inr [OF run] obtain c where
    c: "dict_of known (encoder_type config) = Some c" and
    m: "model ex =
          (if two_tower config \<noteq> 0
           then TwoTowerICT c (bert_model config) (output_encode_dim config)
           else OneTowerICT c (bert_model config) (output_encode_dim config))"
    by blast
  from m show "is_TwoTowerICT (model ex) \<longleftrightarrow> two_tower config \<noteq> 0" by simp
  from m show "is_OneTowerICT (model ex) \<longleftrightarrow> two_tower config = 0" by simp
  from c m show "\<exists>c. dict_of known (encoder_type config) = Some c \<and>
           model ex =
             (if two_tower config \<noteq> 0
              then TwoTowerICT c (bert_model config) (output_encode_dim config)
              else OneTowerICT c (bert_model config) (output_encode_dim config))"
    by blast
next
  assume h: "run_experiment known config = (t, Inr ex) \<and>
    run_experiment known' config' = (t', Inr ex') \<and>
    (two_tower config = 0 \<longleftrightarrow> two_tower config' = 0)"
  from h run_experiment_Inr [of known config t ex] obtain c where
    m: "model ex =
          (if two_tower config \<noteq> 0
           then TwoTowerICT c (bert_model config) (output_encode_dim config)
           else OneTowerICT c (bert_model config) (output_encode_dim config))"
    by blast
  from h run_experiment_Inr [of known' config' t' ex'] obtain c' where
    m': "model ex' =
          (if two_tower config' \<noteq> 0
           then TwoTowerICT c' (bert_model config') (output_encode_dim config')
           else OneTowerICT c' (bert_model config') (output_encode_dim config'))"
    by blast
  from h m m' show "is_TwoTowerICT (model ex) \<longleftrightarrow> is_TwoTowerICT (model ex')" by simp
qed

lemma demo_run_experiment:
  "snd (run_experiment [(''DistilbertCls'', ''DistilBertForClsEmbedding'')] (demo_train_config\<lparr>two_tower := n\<rparr>)) =
     Inr \<lparr>model = (if n \<noteq> 0 then TwoTowerICT ''DistilBertForClsEmbedding'' ''distilbert-base-cased'' 100
                   else OneTowerICT ''DistilBertForClsEmbedding'' ''distilbert-base-cased'' 100),
          training_args =
            \<lparr>output_dir = ''../../models/ICT/'' @ replace_char CHR '' '' CHR ''_''
                 (get_run_name n False ''HDFS1'' 42 512 512 64 64 100 ''DistilbertCls''
                    ''distilbert-base-cased''),
             run_name = get_run_name n False ''HDFS1'' 42 512 512 64 64 100 ''DistilbertCls''
                    ''distilbert-base-cased''\<rparr>\<rparr>"
  by (simp add: run_experiment_def demo_train_config_def py_assert_def getitem_def dict_of_def
      Let_def ret_def)

theorem tower_choice_witness:
  "(\<exists>t ex. run_experiment [(''DistilbertCls'', ''DistilBertForClsEmbedding'')] demo_train_config
             = (t, Inr ex) \<and> is_TwoTowerICT (model ex)) \<and>
   (\<exists>t ex. run_experiment [(''DistilbertCls'', ''DistilBertForClsEmbedding'')]
               (demo_train_config\<lparr>two_tower := 0\<rparr>) = (t, Inr ex) \<and> is_OneTowerICT (model ex))"
proof -
  let ?known = "[(''DistilbertCls'', ''DistilBertForClsEmbedding'')]"
  obtain t1 ex1 where r1: "run_experiment ?known (demo_train_config\<lparr>two_tower := 1\<rparr>) = (t1, Inr ex1)"
    using demo_run_experiment [of 1]
    by (cases "run_experiment ?known (demo_train_config\<lparr>two_tower := 1\<rparr>)") auto
  obtain t0 ex0 where r0: "run_experiment ?known (demo_train_config\<lparr>two_tower := 0\<rparr>) = (t0, Inr ex0)"
    using demo_run_experiment [of 0]
    by (cases "run_experiment ?known (demo_train_config\<lparr>two_tower := 0\<rparr>)") auto
  have same: "demo_train_config\<lparr>two_tower := 1\<rparr> = demo_train_config"
    by (simp add: demo_train_config_def)
  from tower_choice [of ?known "demo_train_config\<lparr>two_tower := 1\<rparr>" t1 ex1
      ?known "demo_train_config\<lparr>two_tower := 0\<rparr>" t0 ex0] r1
  have "is_TwoTowerICT (model ex1)" by simp
  moreover from tower_choice [of ?known "demo_train_config\<lparr>two_tower := 0\<rparr>" t0 ex0
      ?known "demo_train_config\<lparr>two_tower := 0\<rparr>" t0 ex0] r0
  have "is_OneTowerICT (model ex0)" by simp
  ultimately show ?thesis using r1 r0 unfolding same by blast
qed

subsection \<open>The embedding is the projected classification position\<close>

lemma select_position0_Inr:
  "select_position0 h = Inr cls \<longleftrightarrow> (\<forall>positions \<in> set h. positions \<noteq> []) \<and> cls = map hd h"
proof (induction h arbitrary: cls)
  case Nil
  show ?case by auto
next
  case (Cons positions rest)
  show ?case
  proof (cases positions)
    case Nil
    then show ?thesis by simp
  next
    case (Cons first others)
    show ?thesis
    proof (cases "select_position0 rest")
      case (Inl e)
      with Cons.IH have "\<not> (\<forall>positions \<in> set rest. positions \<noteq> [])" by auto
      with Cons Inl show ?thesis by auto
    next
      case (Inr firsts)
      with Cons.IH [of firsts] Cons show ?thesis by auto
    qed
  qed
qed

lemma select_position0_take1: "select_position0 (map (take 1) h) = select_position0 h"
proof (induction h)
  case Nil
  show ?case by simp
next
  case (Cons positions rest)
  then show ?case by (cases positions) simp_all
qed

lemma linear_forward_Inr:
  "linear_forward layer rows = Inr y \<longleftrightarrow>
     (\<forall>x \<in> set rows. length x = in_features layer) \<and> y = map (linear_row layer) rows"
  by (auto simp: linear_forward_def list_all_iff)

lemma forward_Inr:
  "forward self input_ids attention_mask = Inr out \<longleftrightarrow>
     (\<forall>positions \<in> set (distilbert self input_ids attention_mask).
        positions \<noteq> [] \<and> length (hd positions) = in_features (cls_projector self)) \<and>
     embedding out =
       map (\<lambda>positions. linear_row (cls_projector self) (hd positions))
         (distilbert self input_ids attention_mask)"
proof (cases "select_position0 (distilbert self input_ids attention_mask)")
  case (Inl e)
  then have "\<not> (\<forall>positions \<in> set (distilbert self input_ids attention_mask). positions \<noteq> [])"
    using select_position0_Inr [of "distilbert self input_ids attention_mask"] by auto
  with Inl show ?thesis by (auto simp: forward_def)
next
  case (Inr cls)
  then have ne: "\<forall>positions \<in> set (distilbert self input_ids attention_mask). positions \<noteq> []"
    and cls: "cls = map hd (distilbert self input_ids attention_mask)"
    by (simp_all add: select_position0_Inr)
  show ?thesis
  proof (cases "linear_forward (cls_projector self) cls")
    case (Inl e)
    then have "\<not> (\<forall>x \<in> set cls. length x = in_features (cls_projector self))"
      using linear_forward_Inr [of "cls_projector self" cls] by auto
    with Inl Inr cls show ?thesis by (auto simp: forward_def)
  next
    case y: (Inr y)
    then have "\<forall>x \<in> set cls. length x = in_features (cls_projector self)"
      and "y = map (linear_row (cls_projector self)) cls"
      by (simp_all add: linear_forward_Inr)
    with y Inr cls ne show ?thesis
      by (cases out) (auto simp: forward_def comp_def)
  qed
qed

text \<open>
  C2. When \<^verbatim>\<open>forward\<close> returns, the embedding has one row for every entry of the
  batch, and the row is the linear layer \<^verbatim>\<open>cls_projector\<close> applied to position 0 of
  that entry's last hidden state. Nothing else of the hidden state is used: two hidden
  states that agree at position 0 of every entry give the same result under the same
  projector, whatever they hold at the other positions.
\<close>

theorem cls_embedding_from_position0:
  "(forward self input_ids attention_mask = Inr out \<longrightarrow>
      (\<forall>positions \<in> set (distilbert self input_ids attention_mask). positions \<noteq> []) \<and>
      embedding out =
        map (\<lambda>positions. linear_row (cls_projector self) (hd positions))
          (distilbert self input_ids attention_mask)) \<and>
   (cls_projector self' = cls_projector self \<and>
    map (take 1) (distilbert self' input_ids' attention_mask') =
      map (take 1) (distilbert self input_ids attention_mask) \<longrightarrow>
      forward self' input_ids' attention_mask' = forward self input_ids attention_mask)"
proof (intro conjI impI)
  assume "forward self input_ids attention_mask = Inr out"
  then show "\<forall>positions \<in> set (distilbert self input_ids attention_mask). positions \<noteq> []"
    and "embedding out =
        map (\<lambda>positions. linear_row (cls_projector self) (hd positions))
          (distilbert self input_ids attention_mask)"
    by (simp_all add: forward_Inr)
next
  assume h: "cls_projector self' = cls_projector self \<and>
    map (take 1) (distilbert self' input_ids' attention_mask') =
      map (take 1) (distilbert self input_ids attention_mask)"
  then have s: "select_position0 (distilbert self' input_ids' attention_mask') =
             select_position0 (distilbert self input_ids attention_mask)"
    using select_position0_take1 [of "distilbert self' input_ids' attention_mask'"]
      select_position0_take1 [of "distilbert self input_ids attention_mask"]
    by simp
  from h have p: "cls_projector self' = cls_projector self" by simp
  show "forward self' input_ids' attention_mask' = forward self input_ids attention_mask"
    unfolding forward_def Let_def p s by (rule refl)
qed

theorem cls_embedding_from_position0_witness:
  "forward \<lparr>distilbert = (\<lambda>ids mask. map (\<lambda>i. [[i, i], [7, 7]]) ids),
            cls_projector = \<lparr>in_features = 2, out_features = 1, weight = [[1, 2]], bias = [10]\<rparr>\<rparr>
      [1, 2 :: int] [1, 1 :: int] = Inr \<lparr>embedding = [[13], [16 :: int]]\<rparr> \<and>
   forward \<lparr>distilbert = (\<lambda>ids mask. map (\<lambda>i. [[i, i], [0, 0], [5, 5]]) ids),
            cls_projector = \<lparr>in_features = 2, out_features = 1, weight = [[1, 2]], bias = [10]\<rparr>\<rparr>
      [1, 2 :: int] [1, 1 :: int] = Inr \<lparr>embedding = [[13], [16 :: int]]\<rparr>"
  using cls_embedding_from_position0 [of
      "\<lparr>distilbert = (\<lambda>ids mask. map (\<lambda>i. [[i, i], [7, 7]]) ids),
        cls_projector = \<lparr>in_features = 2, out_features = 1, weight = [[1, 2]], bias = [10]\<rparr>\<rparr>"
      "[1, 2 :: int]" "[1, 1 :: int]" "\<lparr>embedding = [[13], [16 :: int]]\<rparr>"
      "\<lparr>distilbert = (\<lambda>ids mask. map (\<lambda>i. [[i, i], [0, 0], [5, 5]]) ids),
        cls_projector = \<lparr>in_features = 2, out_features = 1, weight = [[1, 2]], bias = [10]\<rparr>\<rparr>"
      "[1, 2 :: int]" "[1, 1 :: int]"]
  by (simp add: forward_def linear_forward_def linear_row_def)

subsection \<open>The embedding dimension is fixed by the configuration\<close>







subsection \<open>The run name\<close>

lemma digit_char_digit: "d < 10 \<Longrightarrow> digit_char d \<in> set ''0123456789''"
  unfolding digit_char_def by (rule nth_mem) simp

lemma str_nat_no: "c \<notin> set ''0123456789'' \<Longrightarrow> c \<notin> set (str_nat n)"
proof (induction n rule: str_nat.induct)
  case (1 n)
  show ?case
  proof (cases "n < 10")
    case True
    have "str_nat n = [digit_char n]" using True by (subst str_nat.simps) simp
    moreover have "digit_char n \<noteq> c" using digit_char_digit [OF True] "1.prems" by metis
    ultimately show ?thesis by simp
  next
    case False
    have eq: "str_nat n = str_nat (n div 10) @ [digit_char (n mod 10)]"
      using False by (subst str_nat.simps) simp
    have "n mod 10 < 10" by simp
    then have "digit_char (n mod 10) \<noteq> c" using digit_char_digit "1.prems" by metis
    moreover have "c \<notin> set (str_nat (n div 10))" using "1.IH" [OF False "1.prems"] .
    ultimately show ?thesis unfolding eq by simp
  qed
qed

lemma str_int_no: "c \<notin> set ''0123456789'' \<Longrightarrow> c \<noteq> CHR ''-'' \<Longrightarrow> c \<notin> set (str_int i)"
  using str_nat_no [of c] by (simp add: str_int_def)

lemma str_int_no_T [simp]: "CHR ''T'' \<notin> set (str_int i)"
  by (rule str_int_no) simp_all

lemma str_int_no_f [simp]: "CHR ''f'' \<notin> set (str_int i)"
  by (rule str_int_no) simp_all

lemma two_char_split:
  assumes "x \<noteq> c" "y \<noteq> c"
  shows "sublist [x, y] (a @ c # b) \<longleftrightarrow> sublist [x, y] a \<or> sublist [x, y] b"
  using assms
  by (auto simp: sublist_append sublist_Cons_right prefix_Cons suffix_def Cons_eq_append_conv
      append_eq_Cons_conv)

lemma sublist_segments:
  assumes "x \<noteq> c" "y \<noteq> c"
  shows "sublist [x, y] (foldr (\<lambda>s acc. s @ c # acc) segs final) \<longleftrightarrow>
         (\<exists>s \<in> set segs. sublist [x, y] s) \<or> sublist [x, y] final"
  by (induction segs) (auto simp: two_char_split [OF assms])

lemma no_second_char: "y \<notin> set s \<Longrightarrow> \<not> sublist [x, y] s"
  using set_mono_sublist [of "[x, y]" s] by auto

lemma get_run_name_segments:
  "get_run_name tt fp ds sd tlen clen tb eb od et ck =
   foldr (\<lambda>s acc. s @ CHR '' '' # acc)
     ([et, ck, if tt \<noteq> 0 then ''2T'' else ''1T''] @
      (if fp then [''fp16''] else []) @
      [ds, ''Seed-'' @ str_int sd, ''T-len'', str_int tlen,
       ''C-len'', str_int clen, ''Tr-batch'', str_int tb,
       ''Ev-b'', str_int eb, ''O-dim''])
     (str_int od)"
  by (simp add: get_run_name_def)

lemma tower_tag_iff:
  assumes "d = CHR ''1'' \<or> d = CHR ''2''"
  shows "sublist [d, CHR ''T'']
          (get_run_name tt fp ds sd tlen clen tb eb od et ck)
        \<longleftrightarrow>
          (if tt \<noteq> 0 then d = CHR ''2'' else d = CHR ''1'') \<or>
          sublist [d, CHR ''T''] et \<or> sublist [d, CHR ''T''] ck \<or>
          sublist [d, CHR ''T''] ds"
proof -
  have d: "d \<noteq> CHR '' ''" using assms by auto
  have T: "CHR ''T'' \<noteq> CHR '' ''" by simp
  have num: "\<And>i. \<not> sublist [d, CHR ''T''] (str_int i)"
    by (rule no_second_char) simp
  have seed: "\<not> sublist [d, CHR ''T''] (''Seed-'' @ str_int sd)"
    by (rule no_second_char) simp
  have lits: "\<not> sublist [d, CHR ''T''] ''fp16''" "\<not> sublist [d, CHR ''T''] ''T-len''"
    "\<not> sublist [d, CHR ''T''] ''C-len''" "\<not> sublist [d, CHR ''T''] ''Tr-batch''"
    "\<not> sublist [d, CHR ''T''] ''Ev-b''" "\<not> sublist [d, CHR ''T''] ''O-dim''"
    using assms by (auto simp: sublist_Cons_right)
  have tags: "sublist [d, CHR ''T''] ''2T'' \<longleftrightarrow> d = CHR ''2''"
    "sublist [d, CHR ''T''] ''1T'' \<longleftrightarrow> d = CHR ''1''"
    by (auto simp: sublist_Cons_right)
  show ?thesis
    unfolding get_run_name_segments sublist_segments [OF d T]
    using num seed lits tags by auto
qed

lemma sublist_leading_sep:
  assumes "c \<notin> set w"
  shows "sublist (c # w) (a @ c # b) \<longleftrightarrow> sublist (c # w) a \<or> sublist (c # w) (c # b)"
proof
  assume "sublist (c # w) (a @ c # b)"
  then consider "sublist (c # w) a" | "sublist (c # w) (c # b)"
    | xs1 xs2 where "c # w = xs1 @ xs2" "suffix xs1 a" "prefix xs2 (c # b)"
    unfolding sublist_append by blast
  then show "sublist (c # w) a \<or> sublist (c # w) (c # b)"
  proof cases
    case 1
    then show ?thesis by simp
  next
    case 2
    then show ?thesis by simp
  next
    case 3
    show ?thesis
    proof (cases xs2)
      case Nil
      with 3 show ?thesis by auto
    next
      case (Cons x xs2')
      with 3(3) have x: "x = c" by simp
      show ?thesis
      proof (cases xs1)
        case Nil
        with 3 show ?thesis by auto
      next
        case (Cons y xs1')
        with 3(1) \<open>xs2 = x # xs2'\<close> x have "w = xs1' @ c # xs2'" by simp
        with assms show ?thesis by simp
      qed
    qed
  qed
next
  assume "sublist (c # w) a \<or> sublist (c # w) (c # b)"
  then show "sublist (c # w) (a @ c # b)"
    unfolding sublist_append by blast
qed

lemma sublist_sep_segments:
  assumes "c \<notin> set w"
  shows "sublist (c # w) (c # foldr (\<lambda>s acc. s @ c # acc) segs final) \<longleftrightarrow>
         (\<exists>s \<in> set segs. sublist (c # w) (c # s)) \<or> sublist (c # w) (c # final)"
proof (induction segs)
  case Nil
  show ?case by simp
next
  case (Cons s segs)
  have "sublist (c # w) ((c # s) @ c # foldr (\<lambda>s acc. s @ c # acc) segs final) \<longleftrightarrow>
        sublist (c # w) (c # s) \<or> sublist (c # w) (c # foldr (\<lambda>s acc. s @ c # acc) segs final)"
    by (rule sublist_leading_sep [OF assms])
  with Cons show ?case by auto
qed

lemma no_char_no_sublist: "x \<in> set w \<Longrightarrow> x \<notin> set s \<Longrightarrow> \<not> sublist w s"
  using set_mono_sublist [of w s] by auto

lemma fp16_tag_iff:
  "sublist '' fp16'' (get_run_name tt fp ds sd tlen clen tb eb od et ck) \<longleftrightarrow>
     fp \<or> sublist '' fp16'' et \<or> sublist '' fp16'' (CHR '' '' # ck) \<or>
     sublist '' fp16'' (CHR '' '' # ds)"
proof -
  let ?segs = "[ck, if tt \<noteq> 0 then ''2T'' else ''1T''] @
      (if fp then [''fp16''] else []) @
      [ds, ''Seed-'' @ str_int sd, ''T-len'', str_int tlen,
       ''C-len'', str_int clen, ''Tr-batch'', str_int tb,
       ''Ev-b'', str_int eb, ''O-dim'']"
  have name: "get_run_name tt fp ds sd tlen clen tb eb od et ck =
          et @ CHR '' '' # foldr (\<lambda>s acc. s @ CHR '' '' # acc) ?segs (str_int od)"
    by (simp add: get_run_name_def)
  have sp: "CHR '' '' \<notin> set ''fp16''" by simp
  have num: "\<And>i. \<not> sublist '' fp16'' (CHR '' '' # str_int i)"
    by (rule no_char_no_sublist [of "CHR ''f''"]) simp_all
  have seed: "\<not> sublist '' fp16'' (CHR '' '' # ''Seed-'' @ str_int sd)"
    by (rule no_char_no_sublist [of "CHR ''f''"]) simp_all
  have lits: "\<not> sublist '' fp16'' '' 2T''" "\<not> sublist '' fp16'' '' 1T''"
    "\<not> sublist '' fp16'' '' T-len''" "\<not> sublist '' fp16'' '' C-len''"
    "\<not> sublist '' fp16'' '' Tr-batch''" "\<not> sublist '' fp16'' '' Ev-b''"
    "\<not> sublist '' fp16'' '' O-dim''"
    by (rule no_char_no_sublist [of "CHR ''f''"]; simp)+
  have tag: "sublist '' fp16'' '' fp16''" by simp
  show ?thesis
    unfolding name sublist_leading_sep [OF sp] sublist_sep_segments [OF sp]
    using num seed lits tag by auto
qed


lemma replace_char_removes: "old \<noteq> new \<Longrightarrow> old \<notin> set (replace_char old new s)"
  by (auto simp: replace_char_def)

text \<open>
  C7, as amended. The run name is a function of the eleven arguments, printed as
  \<^verbatim>\<open>encoder_type\<close>, \<^verbatim>\<open>pretrained_checkpoint\<close>, the tower tag, the optional
  \<^verbatim>\<open>fp16\<close> tag, \<^verbatim>\<open>dataset_name\<close> and the numeric fields, each after a space. It
  contains \<^verbatim>\<open>2T\<close> exactly when \<open>two_tower\<close> is true or one of the three strings of
  the caller (encoder type, checkpoint, dataset name) contains \<^verbatim>\<open>2T\<close>; it contains
  \<^verbatim>\<open>1T\<close> exactly when \<open>two_tower\<close> is false or one of the three strings contains
  \<^verbatim>\<open>1T\<close>; it contains \<^verbatim>\<open> fp16\<close> exactly when \<open>fp16\<close> is true or \<^verbatim>\<open> fp16\<close> occurs
  in the encoder type, or in the checkpoint or the dataset name as printed after their
  space. The output directory given to \<^verbatim>\<open>TrainingArguments\<close> is
  \<^verbatim>\<open>../../models/ICT/\<close> followed by the run name with every space replaced by an
  underscore, and holds no space at all.
\<close>

theorem run_name_and_output_dir:
  "(sublist ''2T'' (get_run_name tt fp ds sd tlen clen tb eb od et ck) \<longleftrightarrow>
      tt \<noteq> 0 \<or> sublist ''2T'' et \<or> sublist ''2T'' ck \<or> sublist ''2T'' ds) \<and>
   (sublist ''1T'' (get_run_name tt fp ds sd tlen clen tb eb od et ck) \<longleftrightarrow>
      tt = 0 \<or> sublist ''1T'' et \<or> sublist ''1T'' ck \<or> sublist ''1T'' ds) \<and>
   (sublist '' fp16'' (get_run_name tt fp ds sd tlen clen tb eb od et ck) \<longleftrightarrow>
      fp \<or> sublist '' fp16'' et \<or> sublist '' fp16'' (CHR '' '' # ck) \<or>
      sublist '' fp16'' (CHR '' '' # ds)) \<and>
   (run_experiment known config = (t, Inr ex) \<longrightarrow>
      (\<exists>name. dataset_name config = Some name \<and>
         output_dir (training_args ex) =
           ''../../models/ICT/'' @ replace_char CHR '' '' CHR ''_''
             (get_run_name (two_tower config) (fp16 config) name (seed config)
                (target_max_seq_len config) (context_max_seq_len config)
                (train_batch_size config) (eval_batch_size config)
                (output_encode_dim config) (encoder_type config) (bert_model config))) \<and>
      CHR '' '' \<notin> set (output_dir (training_args ex)))"
proof (intro conjI impI)
  show "sublist ''2T'' (get_run_name tt fp ds sd tlen clen tb eb od et ck) \<longleftrightarrow>
      tt \<noteq> 0 \<or> sublist ''2T'' et \<or> sublist ''2T'' ck \<or> sublist ''2T'' ds"
    using tower_tag_iff [of "CHR ''2''" tt fp ds sd tlen clen tb eb od et ck] by simp
  show "sublist ''1T'' (get_run_name tt fp ds sd tlen clen tb eb od et ck) \<longleftrightarrow>
      tt = 0 \<or> sublist ''1T'' et \<or> sublist ''1T'' ck \<or> sublist ''1T'' ds"
    using tower_tag_iff [of "CHR ''1''" tt fp ds sd tlen clen tb eb od et ck] by simp
  show "sublist '' fp16'' (get_run_name tt fp ds sd tlen clen tb eb od et ck) \<longleftrightarrow>
      fp \<or> sublist '' fp16'' et \<or> sublist '' fp16'' (CHR '' '' # ck) \<or>
      sublist '' fp16'' (CHR '' '' # ds)"
    by (rule fp16_tag_iff)
next
  assume run: "run_experiment known config = (t, Inr ex)"
  from run_experiment_Inr [OF run] obtain name where
    n: "dataset_name config = Some name" and
    rn: "run_name (training_args ex) =
             get_run_name (two_tower config) (fp16 config) name (seed config)
               (target_max_seq_len config) (context_max_seq_len config)
               (train_batch_size config) (eval_batch_size config)
               (output_encode_dim config) (encoder_type config) (bert_model config)" and
    od: "output_dir (training_args ex) =
             ''../../models/ICT/'' @ replace_char CHR '' '' CHR ''_'' (run_name (training_args ex))"
    by blast
  from n rn od show "\<exists>name. dataset_name config = Some name \<and>
         output_dir (training_args ex) =
           ''../../models/ICT/'' @ replace_char CHR '' '' CHR ''_''
             (get_run_name (two_tower config) (fp16 config) name (seed config)
                (target_max_seq_len config) (context_max_seq_len config)
                (train_batch_size config) (eval_batch_size config)
                (output_encode_dim config) (encoder_type config) (bert_model config))"
    by simp
  have "CHR '' '' \<notin> set (replace_char CHR '' '' CHR ''_'' (run_name (training_args ex)))"
    by (rule replace_char_removes) simp
  then show "CHR '' '' \<notin> set (output_dir (training_args ex))"
    unfolding od by simp
qed

theorem run_name_and_output_dir_witness:
  "sublist '' fp16'' (get_run_name 1 True ''HDFS1'' 42 512 512 64 64 100 ''DistilbertCls''
      ''distilbert-base-cased'') \<and>
   \<not> sublist '' fp16'' (get_run_name 1 False ''HDFS1'' 42 512 512 64 64 100 ''DistilbertCls''
      ''distilbert-base-cased'') \<and>
   sublist ''2T'' (get_run_name 1 False ''HDFS1'' 42 512 512 64 64 100 ''DistilbertCls''
      ''distilbert-base-cased'') \<and>
   \<not> sublist ''1T'' (get_run_name 1 False ''HDFS1'' 42 512 512 64 64 100 ''DistilbertCls''
      ''distilbert-base-cased'') \<and>
   CHR '' '' \<notin> set (''../../models/ICT/'' @ replace_char CHR '' '' CHR ''_''
      (get_run_name 1 False ''HDFS1'' 42 512 512 64 64 100 ''DistilbertCls''
         ''distilbert-base-cased''))"
proof -
  let ?known = "[(''DistilbertCls'', ''DistilBertForClsEmbedding'')]"
  let ?ex = "\<lparr>model = TwoTowerICT ''DistilBertForClsEmbedding'' ''distilbert-base-cased'' 100,
          training_args =
            \<lparr>output_dir = ''../../models/ICT/'' @ replace_char CHR '' '' CHR ''_''
                 (get_run_name 1 False ''HDFS1'' 42 512 512 64 64 100 ''DistilbertCls''
                    ''distilbert-base-cased''),
             run_name = get_run_name 1 False ''HDFS1'' 42 512 512 64 64 100 ''DistilbertCls''
                    ''distilbert-base-cased''\<rparr>\<rparr>"
  have same: "demo_train_config\<lparr>two_tower := 1\<rparr> = demo_train_config"
    by (simp add: demo_train_config_def)
  have run: "run_experiment ?known demo_train_config =
               (fst (run_experiment ?known demo_train_config), Inr ?ex)"
    using demo_run_experiment [of 1] unfolding same
    by (cases "run_experiment ?known demo_train_config") simp
  from run_name_and_output_dir [of 1 True "''HDFS1''" 42 512 512 64 64 100 "''DistilbertCls''"
      "''distilbert-base-cased''" ?known demo_train_config
      "fst (run_experiment ?known demo_train_config)" ?ex]
    run_name_and_output_dir [of 1 False "''HDFS1''" 42 512 512 64 64 100 "''DistilbertCls''"
      "''distilbert-base-cased''" ?known demo_train_config
      "fst (run_experiment ?known demo_train_config)" ?ex] run
  show ?thesis by (simp add: sublist_Cons_right)
qed

text \<open>
  The claim as first stated fails in each of its three "exactly when" parts: with
  \<open>two_tower\<close> false a dataset called \<^verbatim>\<open>HDFS2T\<close> puts \<^verbatim>\<open>2T\<close> into the run name,
  with \<open>two_tower\<close> true a dataset called \<^verbatim>\<open>HDFS1T\<close> puts \<^verbatim>\<open>1T\<close> into it, and with
  \<open>fp16\<close> false a dataset called \<^verbatim>\<open>fp16\<close> puts \<^verbatim>\<open> fp16\<close> into it.
\<close>

theorem run_name_tag_counterexample:
  "\<not> (sublist ''2T'' (get_run_name 0 False ''HDFS2T'' 42 512 512 64 64 100 ''DistilbertCls''
          ''distilbert-base-cased'') \<longleftrightarrow> (0 :: int) \<noteq> 0) \<and>
   \<not> (sublist ''1T'' (get_run_name 1 False ''HDFS1T'' 42 512 512 64 64 100 ''DistilbertCls''
          ''distilbert-base-cased'') \<longleftrightarrow> (1 :: int) = 0) \<and>
   \<not> (sublist '' fp16'' (get_run_name 1 False ''fp16'' 42 512 512 64 64 100 ''DistilbertCls''
          ''distilbert-base-cased'') \<longleftrightarrow> False)"
  using tower_tag_iff [of "CHR ''2''" 0 False "''HDFS2T''" 42 512 512 64 64 100
      "''DistilbertCls''" "''distilbert-base-cased''"]
    tower_tag_iff [of "CHR ''1''" 1 False "''HDFS1T''" 42 512 512 64 64 100
      "''DistilbertCls''" "''distilbert-base-cased''"]
    fp16_tag_iff [of 1 False "''fp16''" 42 512 512 64 64 100
      "''DistilbertCls''" "''distilbert-base-cased''"]
  by (simp add: sublist_Cons_right)

subsection \<open>Paths\<close>

lemma split_sep_no_sep: "c \<notin> set s \<Longrightarrow> split_sep c s = [s]"
  by (induction s) auto

lemma split_sep_append: "c \<notin> set a \<Longrightarrow> split_sep c (a @ c # b) = a # split_sep c b"
  by (induction a) auto

lemma split_sep_parts: "x \<in> set (split_sep c s) \<Longrightarrow> c \<notin> set x"
proof (induction s arbitrary: x)
  case Nil
  then show ?case by simp
next
  case (Cons y s)
  show ?case
  proof (cases "y = c")
    case True
    with Cons show ?thesis by auto
  next
    case False
    with Cons show ?thesis by (cases "split_sep c s") auto
  qed
qed

lemma Path_root_relative: "p_root (Path s) = [] \<longleftrightarrow> take 1 s \<noteq> ''/''"
proof (cases s)
  case Nil
  then show ?thesis by (simp add: Path_def)
next
  case (Cons x xs)
  show ?thesis
  proof (cases "x = CHR ''/''")
    case True
    have "length (dropWhile (\<lambda>c. c = CHR ''/'') xs) \<le> length xs"
      by (rule length_dropWhile_le)
    with True Cons show ?thesis by (simp add: Path_def Let_def)
  next
    case False
    with Cons show ?thesis by (simp add: Path_def)
  qed
qed

lemma Path_parts_no_slash: "x \<in> set (p_parts (Path s)) \<Longrightarrow> CHR ''/'' \<notin> set x"
  by (auto simp: Path_def Let_def dest: split_sep_parts)

lemma path_stem_no_slash: "CHR ''/'' \<notin> set (path_stem (Path s))"
proof -
  have n: "CHR ''/'' \<notin> set (path_name (Path s))"
    using Path_parts_no_slash [of "last (p_parts (Path s))" s]
    by (auto simp: path_name_def)
  show ?thesis
    using n by (auto simp: path_stem_def Let_def dest: in_set_takeD)
qed

lemma Path_two_components:
  assumes "is_component st" "CHR ''/'' \<notin> set st" "is_component comp2" "CHR ''/'' \<notin> set comp2"
  shows "Path (st @ CHR ''/'' # comp2) = \<lparr>p_root = [], p_parts = [st, comp2]\<rparr>"
proof -
  from assms(1,2) obtain x xs where st: "st = x # xs" and x: "x \<noteq> CHR ''/''"
    by (cases st) (auto simp: is_component_def)
  have d: "dropWhile (\<lambda>c. c = CHR ''/'') (st @ CHR ''/'' # comp2) = st @ CHR ''/'' # comp2"
    using st x by simp
  have "split_sep CHR ''/'' (st @ CHR ''/'' # comp2) = [st, comp2]"
    using assms(2,4) by (simp add: split_sep_append split_sep_no_sep)
  with assms(1,3) show ?thesis
    unfolding Path_def Let_def d by simp
qed

lemma joinpath_relative:
  "take 1 name \<noteq> ''/'' \<Longrightarrow>
     joinpath p name = \<lparr>p_root = p_root p, p_parts = p_parts p @ p_parts (Path name)\<rparr>"
  using Path_root_relative [of name] by (simp add: joinpath_def Let_def)

lemma joinpath_absolute: "take 1 name = ''/'' \<Longrightarrow> joinpath p name = Path name"
  using Path_root_relative [of name] by (simp add: joinpath_def Let_def)

lemma default_output_path:
  assumes "is_component st" "CHR ''/'' \<notin> set st" "CHR ''/'' \<notin> set (tag @ mst)"
    "tag @ mst \<noteq> []" "tag @ mst \<noteq> ''.''"
  shows "joinpath p (st @ CHR ''/'' # tag @ mst) =
           \<lparr>p_root = p_root p, p_parts = p_parts p @ [st, tag @ mst]\<rparr>"
proof -
  have "Path (st @ CHR ''/'' # tag @ mst) = \<lparr>p_root = [], p_parts = [st, tag @ mst]\<rparr>"
    using assms by (intro Path_two_components) (simp_all add: is_component_def)
  then show ?thesis by (simp add: joinpath_def Let_def)
qed

lemma raw_paths_Inr:
  assumes "raw_paths rc = (t, Inr (mp, dp, out))"
  shows "\<exists>f parent.
           input_dataset_log_file rc = Some f \<and> output_parent_folder rc = Some parent \<and>
           model_path rc = Some mp \<and> dp = Path f \<and>
           out = joinpath (Path parent)
                   (case dataset_output_name rc of
                      None \<Rightarrow> path_stem (Path f) @ ''/embedding_from_'' @ path_stem (Path mp)
                    | Some name \<Rightarrow> name)"
  using assms
  by (auto simp: raw_paths_def Let_def raise_def ret_def split: option.splits)

lemma labeled_paths_Inr:
  assumes "labeled_paths lc = (t, Inr (mp, dp, lp, out))"
  shows "\<exists>f parent.
           input_dataset_log_file lc = Some f \<and> output_parent_folder lc = Some parent \<and>
           model_path lc = Some mp \<and> dp = Path f \<and>
           out = joinpath (Path parent)
                   (case dataset_output_name lc of
                      None \<Rightarrow>
                        path_stem (Path f) @ ''/labeled_embedding_from_'' @ path_stem (Path mp)
                    | Some name \<Rightarrow> name)"
  using assms
  by (auto simp: labeled_paths_def Let_def raise_def ret_def split: option.splits)

text \<open>
  Where the output directory does lie inside the parent folder: with the name omitted
  and an input file whose stem is a proper path component it is the parent folder's path
  followed by the stem and \<^verbatim>\<open>embedding_from_<model path stem>\<close> (raw script) or
  \<^verbatim>\<open>labeled_embedding_from_<model path stem>\<close> (labeled script), and with a name
  given that does not begin with a slash it is the parent folder's path followed by the
  name's components. A name that begins with a slash is the output directory by itself.
\<close>

lemma output_path_within_parent:
  "(raw_paths rc = (t, Inr (mp, dp, out)) \<longrightarrow>
      (\<exists>f parent.
         input_dataset_log_file rc = Some f \<and> output_parent_folder rc = Some parent \<and>
         model_path rc = Some mp \<and>
         (dataset_output_name rc = None \<and> is_component (path_stem (Path f)) \<longrightarrow>
            out = \<lparr>p_root = p_root (Path parent),
                   p_parts = p_parts (Path parent) @
                     [path_stem (Path f), ''embedding_from_'' @ path_stem (Path mp)]\<rparr>) \<and>
         (\<forall>name. dataset_output_name rc = Some name \<longrightarrow>
            (take 1 name \<noteq> ''/'' \<longrightarrow>
               out = \<lparr>p_root = p_root (Path parent),
                      p_parts = p_parts (Path parent) @ p_parts (Path name)\<rparr>) \<and>
            (take 1 name = ''/'' \<longrightarrow> out = Path name)))) \<and>
   (labeled_paths lc = (lt, Inr (lmp, ldp, llp, lout)) \<longrightarrow>
      (\<exists>f parent.
         input_dataset_log_file lc = Some f \<and> output_parent_folder lc = Some parent \<and>
         model_path lc = Some lmp \<and>
         (dataset_output_name lc = None \<and> is_component (path_stem (Path f)) \<longrightarrow>
            lout = \<lparr>p_root = p_root (Path parent),
                    p_parts = p_parts (Path parent) @
                      [path_stem (Path f), ''labeled_embedding_from_'' @ path_stem (Path lmp)]\<rparr>) \<and>
         (\<forall>name. dataset_output_name lc = Some name \<longrightarrow>
            (take 1 name \<noteq> ''/'' \<longrightarrow>
               lout = \<lparr>p_root = p_root (Path parent),
                       p_parts = p_parts (Path parent) @ p_parts (Path name)\<rparr>) \<and>
            (take 1 name = ''/'' \<longrightarrow> lout = Path name))))"
proof (intro conjI impI)
  assume "raw_paths rc = (t, Inr (mp, dp, out))"
  from raw_paths_Inr [OF this] obtain f parent where
    f: "input_dataset_log_file rc = Some f" and parent: "output_parent_folder rc = Some parent" and
    m: "model_path rc = Some mp" and
    out: "out = joinpath (Path parent)
                   (case dataset_output_name rc of
                      None \<Rightarrow> path_stem (Path f) @ ''/embedding_from_'' @ path_stem (Path mp)
                    | Some name \<Rightarrow> name)"
    by blast
  have default: "dataset_output_name rc = None \<and> is_component (path_stem (Path f)) \<longrightarrow>
            out = \<lparr>p_root = p_root (Path parent),
                   p_parts = p_parts (Path parent) @
                     [path_stem (Path f), ''embedding_from_'' @ path_stem (Path mp)]\<rparr>"
    using default_output_path [of "path_stem (Path f)" "''embedding_from_''" "path_stem (Path mp)"
        "Path parent"] path_stem_no_slash [of f] path_stem_no_slash [of mp] out
    by simp
  have given: "\<forall>name. dataset_output_name rc = Some name \<longrightarrow>
            (take 1 name \<noteq> ''/'' \<longrightarrow>
               out = \<lparr>p_root = p_root (Path parent),
                      p_parts = p_parts (Path parent) @ p_parts (Path name)\<rparr>) \<and>
            (take 1 name = ''/'' \<longrightarrow> out = Path name)"
    using out by (auto simp: joinpath_relative joinpath_absolute)
  show "\<exists>f parent.
         input_dataset_log_file rc = Some f \<and> output_parent_folder rc = Some parent \<and>
         model_path rc = Some mp \<and>
         (dataset_output_name rc = None \<and> is_component (path_stem (Path f)) \<longrightarrow>
            out = \<lparr>p_root = p_root (Path parent),
                   p_parts = p_parts (Path parent) @
                     [path_stem (Path f), ''embedding_from_'' @ path_stem (Path mp)]\<rparr>) \<and>
         (\<forall>name. dataset_output_name rc = Some name \<longrightarrow>
            (take 1 name \<noteq> ''/'' \<longrightarrow>
               out = \<lparr>p_root = p_root (Path parent),
                      p_parts = p_parts (Path parent) @ p_parts (Path name)\<rparr>) \<and>
            (take 1 name = ''/'' \<longrightarrow> out = Path name))"
    using f parent m default given
    apply -
    apply (rule exI [of _ f])
    apply (rule exI [of _ parent])
    apply (intro conjI; assumption)
    done
next
  assume "labeled_paths lc = (lt, Inr (lmp, ldp, llp, lout))"
  from labeled_paths_Inr [OF this] obtain f parent where
    f: "input_dataset_log_file lc = Some f" and parent: "output_parent_folder lc = Some parent" and
    m: "model_path lc = Some lmp" and
    out: "lout = joinpath (Path parent)
                   (case dataset_output_name lc of
                      None \<Rightarrow>
                        path_stem (Path f) @ ''/labeled_embedding_from_'' @ path_stem (Path lmp)
                    | Some name \<Rightarrow> name)"
    by blast
  have default: "dataset_output_name lc = None \<and> is_component (path_stem (Path f)) \<longrightarrow>
            lout = \<lparr>p_root = p_root (Path parent),
                    p_parts = p_parts (Path parent) @
                      [path_stem (Path f), ''labeled_embedding_from_'' @ path_stem (Path lmp)]\<rparr>"
    using default_output_path [of "path_stem (Path f)" "''labeled_embedding_from_''"
        "path_stem (Path lmp)" "Path parent"] path_stem_no_slash [of f]
      path_stem_no_slash [of lmp] out
    by simp
  have given: "\<forall>name. dataset_output_name lc = Some name \<longrightarrow>
            (take 1 name \<noteq> ''/'' \<longrightarrow>
               lout = \<lparr>p_root = p_root (Path parent),
                       p_parts = p_parts (Path parent) @ p_parts (Path name)\<rparr>) \<and>
            (take 1 name = ''/'' \<longrightarrow> lout = Path name)"
    using out by (auto simp: joinpath_relative joinpath_absolute)
  show "\<exists>f parent.
         input_dataset_log_file lc = Some f \<and> output_parent_folder lc = Some parent \<and>
         model_path lc = Some lmp \<and>
         (dataset_output_name lc = None \<and> is_component (path_stem (Path f)) \<longrightarrow>
            lout = \<lparr>p_root = p_root (Path parent),
                    p_parts = p_parts (Path parent) @
                      [path_stem (Path f), ''labeled_embedding_from_'' @ path_stem (Path lmp)]\<rparr>) \<and>
         (\<forall>name. dataset_output_name lc = Some name \<longrightarrow>
            (take 1 name \<noteq> ''/'' \<longrightarrow>
               lout = \<lparr>p_root = p_root (Path parent),
                       p_parts = p_parts (Path parent) @ p_parts (Path name)\<rparr>) \<and>
            (take 1 name = ''/'' \<longrightarrow> lout = Path name))"
    using f parent m default given
    apply -
    apply (rule exI [of _ f])
    apply (rule exI [of _ parent])
    apply (intro conjI; assumption)
    done
qed

lemma demo_raw_paths:
  "raw_paths (demo_raw_config\<lparr>dataset_output_name := given\<rparr>) =
     ([], Inr (''models/enc.v1'', \<lparr>p_root = [], p_parts = [''data'', ''HDFS.log'']\<rparr>,
               joinpath \<lparr>p_root = [], p_parts = [''out'']\<rparr>
                 (case given of None \<Rightarrow> ''HDFS/embedding_from_enc'' | Some name \<Rightarrow> name)))"
  by (simp add: raw_paths_def demo_raw_config_def ret_def Let_def Path_def
      path_stem_def path_name_def rfind_def is_component_def split: option.splits)

lemma demo_labeled_paths_given:
  "labeled_paths (demo_labeled_config\<lparr>dataset_output_name := Some name\<rparr>) =
     ([], Inr (''models/enc.v1'', \<lparr>p_root = [], p_parts = [''data'', ''HDFS.log'']\<rparr>,
               \<lparr>p_root = [], p_parts = [''data'', ''labels.csv'']\<rparr>,
               joinpath \<lparr>p_root = [], p_parts = [''out'']\<rparr> name))"
  by (simp add: labeled_paths_def demo_labeled_config_def ret_def Let_def Path_def
      is_component_def)

lemma demo_output_paths:
  "raw_paths demo_raw_config =
     ([], Inr (''models/enc.v1'', \<lparr>p_root = [], p_parts = [''data'', ''HDFS.log'']\<rparr>,
               \<lparr>p_root = [], p_parts = [''out'', ''HDFS'', ''embedding_from_enc'']\<rparr>)) \<and>
   raw_paths (demo_raw_config\<lparr>dataset_output_name := Some ''runs/a''\<rparr>) =
     ([], Inr (''models/enc.v1'', \<lparr>p_root = [], p_parts = [''data'', ''HDFS.log'']\<rparr>,
               \<lparr>p_root = [], p_parts = [''out'', ''runs'', ''a'']\<rparr>))"
proof -
  have same: "demo_raw_config\<lparr>dataset_output_name := None\<rparr> = demo_raw_config"
    by (simp add: demo_raw_config_def)
  have r1: "raw_paths demo_raw_config =
     ([], Inr (''models/enc.v1'', \<lparr>p_root = [], p_parts = [''data'', ''HDFS.log'']\<rparr>,
               \<lparr>p_root = [], p_parts = [''out'', ''HDFS'', ''embedding_from_enc'']\<rparr>))"
    using demo_raw_paths [of None] unfolding same
    by (simp add: joinpath_def Path_def is_component_def)
  have r2: "raw_paths (demo_raw_config\<lparr>dataset_output_name := Some ''runs/a''\<rparr>) =
     ([], Inr (''models/enc.v1'', \<lparr>p_root = [], p_parts = [''data'', ''HDFS.log'']\<rparr>,
               \<lparr>p_root = [], p_parts = [''out'', ''runs'', ''a'']\<rparr>))"
    using demo_raw_paths [of "Some ''runs/a''"]
    by (simp add: joinpath_def Path_def is_component_def)
  from r1 r2 show ?thesis by simp
qed

text \<open>
  C6. The options' help promises a folder inside the parent folder
  (\<^verbatim>\<open>--dataset-output-name\<close>: "will be used as folder name into the specified parent
  directory"; \<^verbatim>\<open>--output-parent-folder\<close>: "Dataset will be saved into a new directory
  in this folder"), and so does the claim. The code does not keep it: evaluated with the
  parent folder \<^verbatim>\<open>out\<close> and the name \<^verbatim>\<open>/srv/emb\<close>, both scripts take
  \<^verbatim>\<open>/srv/emb\<close> as the output directory, which is not the name's components under
  the parent folder; and with the name omitted and the input path \<^verbatim>\<open>/\<close>, whose stem
  is empty, the raw script takes \<^verbatim>\<open>/embedding_from_enc\<close>, again outside the parent
  folder.
\<close>

theorem absolute_output_name_leaves_parent:
  "raw_paths (demo_raw_config\<lparr>dataset_output_name := Some ''/srv/emb''\<rparr>) =
     ([], Inr (''models/enc.v1'', \<lparr>p_root = [], p_parts = [''data'', ''HDFS.log'']\<rparr>,
               \<lparr>p_root = ''/'', p_parts = [''srv'', ''emb'']\<rparr>)) \<and>
   labeled_paths (demo_labeled_config\<lparr>dataset_output_name := Some ''/srv/emb''\<rparr>) =
     ([], Inr (''models/enc.v1'', \<lparr>p_root = [], p_parts = [''data'', ''HDFS.log'']\<rparr>,
               \<lparr>p_root = [], p_parts = [''data'', ''labels.csv'']\<rparr>,
               \<lparr>p_root = ''/'', p_parts = [''srv'', ''emb'']\<rparr>)) \<and>
   \<lparr>p_root = ''/'', p_parts = [''srv'', ''emb'']\<rparr> \<noteq>
     \<lparr>p_root = p_root (Path ''out''),
      p_parts = p_parts (Path ''out'') @ p_parts (Path ''/srv/emb'')\<rparr> \<and>
   raw_paths (demo_raw_config\<lparr>input_dataset_log_file := Some ''/''\<rparr>) =
     ([], Inr (''models/enc.v1'', \<lparr>p_root = ''/'', p_parts = []\<rparr>,
               \<lparr>p_root = ''/'', p_parts = [''embedding_from_enc'']\<rparr>))"
proof -
  have "raw_paths (demo_raw_config\<lparr>input_dataset_log_file := Some ''/''\<rparr>) =
     ([], Inr (''models/enc.v1'', \<lparr>p_root = ''/'', p_parts = []\<rparr>,
               \<lparr>p_root = ''/'', p_parts = [''embedding_from_enc'']\<rparr>))"
    by (simp add: raw_paths_def demo_raw_config_def ret_def Let_def Path_def joinpath_def
        path_stem_def path_name_def rfind_def is_component_def)
  with demo_raw_paths [of "Some ''/srv/emb''"] demo_labeled_paths_given [of "''/srv/emb''"]
  show ?thesis
    by (simp add: joinpath_def Path_def is_component_def)
qed

end
